theory Spec2Isabelle
  imports Main
begin

section \<open>Python strings and integers used by the handlers\<close>

text \<open>
  A Python \<open>str\<close> is modelled as a HOL \<open>string\<close> holding its UTF-8 bytes. The separators
  and prefixes the handlers look for are ASCII, so splitting, prefix tests and removals
  agree on bytes and on code points.
\<close>

text \<open>\<open>s.startswith(p)\<close>\<close>

fun startswith :: "string \<Rightarrow> string \<Rightarrow> bool" where
  "startswith s [] = True"
| "startswith [] (c # p) = False"
| "startswith (x # s) (c # p) = (x = c \<and> startswith s p)"

text \<open>\<open>s.split(c)\<close> for a one-character separator: it always yields at least one piece.\<close>

fun split_on :: "char \<Rightarrow> string \<Rightarrow> string list" where
  "split_on c [] = [[]]"
| "split_on c (x # xs) =
     (if x = c then [] # split_on c xs
      else (case split_on c xs of
              [] \<Rightarrow> [[x]]
            | w # ws \<Rightarrow> (x # w) # ws))"

text \<open>
  \<open>s.replace(pat, '')\<close>: every occurrence of \<open>pat\<close> is removed, scanning from the left,
  occurrences not overlapping. An empty pattern leaves the string as it is.
\<close>

function remove_all :: "string \<Rightarrow> string \<Rightarrow> string" where
  "remove_all pat [] = []"
| "remove_all pat (x # xs) =
     (if pat \<noteq> [] \<and> startswith (x # xs) pat
      then remove_all pat (drop (length pat) (x # xs))
      else x # remove_all pat xs)"
  by pat_completeness auto
termination
  by (relation "measure (\<lambda>(pat, s). length s)") auto

text \<open>\<open>str(n)\<close> of an integer: decimal digits, a minus sign for negative numbers.\<close>

definition digit_char :: "nat \<Rightarrow> char" where
  "digit_char d = char_of (48 + d)"

fun str_nat :: "nat \<Rightarrow> string" where
  "str_nat n = (if n < 10 then [digit_char n] else str_nat (n div 10) @ [digit_char (n mod 10)])"

declare str_nat.simps [simp del]

definition str_int :: "int \<Rightarrow> string" where
  "str_int i = (if i < 0 then CHR ''-'' # str_nat (nat (- i)) else str_nat (nat i))"

text \<open>
  Identifiers reach the store helpers either as integers (the platform's user ids) or as
  the strings of a command line; \<open>str(user_id)\<close> is the key in both cases.
\<close>

datatype py_id = Int_id int | Str_id string

fun py_str :: "py_id \<Rightarrow> string" where
  "py_str (Int_id i) = str_int i"
| "py_str (Str_id s) = s"

text \<open>
  A reader of decimal numerals: an optional sign followed by ASCII digits. It is one
  function that behaves as the runtime's \<open>int()\<close> does on the output of \<open>str\<close>.
\<close>

definition is_digit :: "char \<Rightarrow> bool" where
  "is_digit c = (48 \<le> (of_char c :: nat) \<and> (of_char c :: nat) \<le> 57)"

definition digit_val :: "char \<Rightarrow> nat" where
  "digit_val c = of_char c - 48"

fun parse_digits :: "nat \<Rightarrow> string \<Rightarrow> nat option" where
  "parse_digits acc [] = Some acc"
| "parse_digits acc (c # cs) =
     (if is_digit c then parse_digits (10 * acc + digit_val c) cs else None)"

definition ascii_int :: "string \<Rightarrow> int option" where
  "ascii_int s =
     (case s of
        [] \<Rightarrow> None
      | c # cs \<Rightarrow>
          if c = CHR ''-'' then (if cs = [] then None else map_option (\<lambda>n. - int n) (parse_digits 0 cs))
          else if c = CHR ''+'' then (if cs = [] then None else map_option int (parse_digits 0 cs))
          else map_option int (parse_digits 0 s))"

section \<open>Data model\<close>

text \<open>The nested \<open>stats\<close> dictionary of a player record.\<close>

record stat_block =
  charm :: int
  intellect :: int
  street_smarts :: int

text \<open>One player record, with the keys of the dictionary built in \<open>get_player_state\<close>.\<close>

record player =
  lang :: string
  approved :: bool
  pending_approval :: bool
  voice_file_id :: "string option"
  character_created :: bool
  name :: "string option"
  profession :: "string option"
  location :: string
  inventory :: "string list"
  stats :: stat_block
  currency :: int
  is_vip :: bool

text \<open>
  The backing file \<open>players.json\<close>: absent, unreadable as JSON, or holding the
  collection keyed by \<open>str(user_id)\<close>.
\<close>

datatype db_file = No_file | Bad_json | Json "string \<rightharpoonup> player"

definition load_player_data :: "db_file \<Rightarrow> (string \<rightharpoonup> player)" where
  "load_player_data f = (case f of No_file \<Rightarrow> Map.empty | Bad_json \<Rightarrow> Map.empty | Json m \<Rightarrow> m)"

definition save_player_data :: "(string \<rightharpoonup> player) \<Rightarrow> db_file" where
  "save_player_data data = Json data"

definition default_player :: player where
  "default_player =
     \<lparr> lang = ''en'', approved = False, pending_approval = False, voice_file_id = None,
       character_created = False, name = None, profession = None, location = ''downtown'',
       inventory = [], stats = \<lparr> charm = 1, intellect = 1, street_smarts = 1 \<rparr>,
       currency = 100, is_vip = False \<rparr>"

text \<open>
  \<open>get_player_state\<close> puts the default record into the dictionary it has just loaded and
  returns it; that dictionary is local and is not saved, so the file is not touched.
\<close>

definition get_player_state :: "py_id \<Rightarrow> db_file \<Rightarrow> player" where
  "get_player_state user_id f =
     (let players = load_player_data f; user_id_str = py_str user_id
      in case players user_id_str of
           None \<Rightarrow> default_player
         | Some p \<Rightarrow> p)"

definition update_player_state :: "py_id \<Rightarrow> player \<Rightarrow> db_file \<Rightarrow> db_file" where
  "update_player_state user_id state f =
     (let players = load_player_data f
      in save_player_data (players(py_str user_id \<mapsto> state)))"

section \<open>The world\<close>

text \<open>
  The entries of \<open>GAME_MAP\<close>, \<open>LOCATIONS\<close> and \<open>NPCS\<close> are dictionaries with fixed
  keys. Texts that are not plain ASCII are given by their UTF-8 bytes.
\<close>

record named =
  name_en :: string
  name_fa :: string

record described = named +
  description_en :: string
  description_fa :: string

record district = described +
  connections :: "string list"
  locations :: "string list"

record place = described +
  npcs :: "string list"
  requires_vip :: "bool option"

record npc = named +
  dialogue_en :: string
  dialogue_fa :: string

definition downtown_name_fa :: string where
  "downtown_name_fa =
     [CHR 0xD9, CHR 0x85, CHR 0xD8, CHR 0xB1, CHR 0xDA, CHR 0xA9, CHR 0xD8, CHR 0xB2] @ '' '' @
     [CHR 0xD8, CHR 0xB4, CHR 0xD9, CHR 0x87, CHR 0xD8, CHR 0xB1]"

definition downtown_description_en :: string where
  "downtown_description_en =
     ''Towering skyscrapers and luxury apartments dominate the skyline. The air hums with power and ambition.''"

definition downtown_description_fa :: string where
  "downtown_description_fa =
     [CHR 0xD8, CHR 0xA2, CHR 0xD8, CHR 0xB3, CHR 0xD9, CHR 0x85, CHR 0xD8, CHR 0xA7, CHR 0xD9,
     CHR 0x86, CHR 0xE2, CHR 0x80, CHR 0x8C, CHR 0xD8, CHR 0xAE, CHR 0xD8, CHR 0xB1, CHR 0xD8,
     CHR 0xA7, CHR 0xD8, CHR 0xB4, CHR 0xE2, CHR 0x80, CHR 0x8C, CHR 0xD9, CHR 0x87, CHR 0xD8,
     CHR 0xA7, CHR 0xDB, CHR 0x8C] @ '' '' @ [CHR 0xD8, CHR 0xB3, CHR 0xD8, CHR 0xB1] @ '' '' @
     [CHR 0xD8, CHR 0xA8, CHR 0xD9, CHR 0x87] @ '' '' @ [CHR 0xD9, CHR 0x81, CHR 0xD9, CHR 0x84,
     CHR 0xDA, CHR 0xA9] @ '' '' @ [CHR 0xDA, CHR 0xA9, CHR 0xD8, CHR 0xB4, CHR 0xDB, CHR 0x8C,
     CHR 0xD8, CHR 0xAF, CHR 0xD9, CHR 0x87] @ '' '' @ [CHR 0xD9, CHR 0x88] @ '' '' @ [CHR 0xD8,
     CHR 0xA2, CHR 0xD9, CHR 0xBE, CHR 0xD8, CHR 0xA7, CHR 0xD8, CHR 0xB1, CHR 0xD8, CHR 0xAA,
     CHR 0xD9, CHR 0x85, CHR 0xD8, CHR 0xA7, CHR 0xD9, CHR 0x86, CHR 0xE2, CHR 0x80, CHR 0x8C,
     CHR 0xD9, CHR 0x87, CHR 0xD8, CHR 0xA7, CHR 0xDB, CHR 0x8C] @ '' '' @ [CHR 0xD9, CHR 0x84,
     CHR 0xD9, CHR 0x88, CHR 0xDA, CHR 0xA9, CHR 0xD8, CHR 0xB3, CHR 0xD8, CHR 0x8C] @ '' '' @
     [CHR 0xD8, CHR 0xAE, CHR 0xD8, CHR 0xB7] @ '' '' @ [CHR 0xD8, CHR 0xA7, CHR 0xD9, CHR 0x81,
     CHR 0xD9, CHR 0x82] @ '' '' @ [CHR 0xD8, CHR 0xB1, CHR 0xD8, CHR 0xA7] @ '' '' @ [CHR 0xD8,
     CHR 0xAA, CHR 0xD8, CHR 0xB3, CHR 0xD8, CHR 0xAE, CHR 0xDB, CHR 0x8C, CHR 0xD8, CHR 0xB1] @
     '' '' @ [CHR 0xDA, CHR 0xA9, CHR 0xD8, CHR 0xB1, CHR 0xD8, CHR 0xAF, CHR 0xD9, CHR 0x87,
     CHR 0xE2, CHR 0x80, CHR 0x8C, CHR 0xD8, CHR 0xA7, CHR 0xD9, CHR 0x86, CHR 0xD8, CHR 0xAF] @
     ''. '' @ [CHR 0xD9, CHR 0x87, CHR 0xD9, CHR 0x88, CHR 0xD8, CHR 0xA7] @ '' '' @ [CHR 0xD8,
     CHR 0xA7, CHR 0xD8, CHR 0xB2] @ '' '' @ [CHR 0xD9, CHR 0x82, CHR 0xD8, CHR 0xAF, CHR 0xD8,
     CHR 0xB1, CHR 0xD8, CHR 0xAA] @ '' '' @ [CHR 0xD9, CHR 0x88] @ '' '' @ [CHR 0xD8, CHR 0xAC,
     CHR 0xD8, CHR 0xA7, CHR 0xD9, CHR 0x87, CHR 0xE2, CHR 0x80, CHR 0x8C, CHR 0xD8, CHR 0xB7,
     CHR 0xD9, CHR 0x84, CHR 0xD8, CHR 0xA8, CHR 0xDB, CHR 0x8C] @ '' '' @ [CHR 0xD9, CHR 0x84,
     CHR 0xD8, CHR 0xA8, CHR 0xD8, CHR 0xB1, CHR 0xDB, CHR 0x8C, CHR 0xD8, CHR 0xB2] @ '' '' @
     [CHR 0xD8, CHR 0xA7, CHR 0xD8, CHR 0xB3, CHR 0xD8, CHR 0xAA] @ ''.''"

definition neon_district_name_fa :: string where
  "neon_district_name_fa =
     [CHR 0xD9, CHR 0x85, CHR 0xD9, CHR 0x86, CHR 0xD8, CHR 0xB7, CHR 0xD9, CHR 0x82, CHR 0xD9,
     CHR 0x87] @ '' '' @ [CHR 0xD9, CHR 0x86, CHR 0xD8, CHR 0xA6, CHR 0xD9, CHR 0x88, CHR 0xD9,
     CHR 0x86]"

definition neon_district_description_en :: string where
  "neon_district_description_en =
     ''A vibrant, chaotic district buzzing with nightlife. Music spills from every doorway.''"

definition neon_district_description_fa :: string where
  "neon_district_description_fa =
     [CHR 0xD9, CHR 0x85, CHR 0xD9, CHR 0x86, CHR 0xD8, CHR 0xB7, CHR 0xD9, CHR 0x82, CHR 0xD9,
     CHR 0x87, CHR 0xE2, CHR 0x80, CHR 0x8C, CHR 0xD8, CHR 0xA7, CHR 0xDB, CHR 0x8C] @ '' '' @
     [CHR 0xD9, CHR 0xBE, CHR 0xD8, CHR 0xB1, CHR 0xD8, CHR 0xAC, CHR 0xD9, CHR 0x86, CHR 0xD8,
     CHR 0xA8, CHR 0xE2, CHR 0x80, CHR 0x8C, CHR 0xD9, CHR 0x88, CHR 0xD8, CHR 0xAC, CHR 0xD9,
     CHR 0x88, CHR 0xD8, CHR 0xB4] @ '' '' @ [CHR 0xD9, CHR 0x88] @ '' '' @ [CHR 0xD9, CHR 0xBE,
     CHR 0xD8, CHR 0xB1, CHR 0xD9, CHR 0x87, CHR 0xD8, CHR 0xB1, CHR 0xD8, CHR 0xAC, CHR 0xE2,
     CHR 0x80, CHR 0x8C, CHR 0xD9, CHR 0x88, CHR 0xD9, CHR 0x85, CHR 0xD8, CHR 0xB1, CHR 0xD8,
     CHR 0xAC] @ '' '' @ [CHR 0xDA, CHR 0xA9, CHR 0xD9, CHR 0x87] @ '' '' @ [CHR 0xD8, CHR 0xA8,
     CHR 0xD8, CHR 0xA7] @ '' '' @ [CHR 0xD8, CHR 0xB2, CHR 0xD9, CHR 0x86, CHR 0xD8, CHR 0xAF,
     CHR 0xDA, CHR 0xAF, CHR 0xDB, CHR 0x8C] @ '' '' @ [CHR 0xD8, CHR 0xB4, CHR 0xD8, CHR 0xA8,
     CHR 0xD8, CHR 0xA7, CHR 0xD9, CHR 0x86, CHR 0xD9, CHR 0x87] @ '' '' @ [CHR 0xD9, CHR 0x85,
     CHR 0xDB, CHR 0x8C, CHR 0xE2, CHR 0x80, CHR 0x8C, CHR 0xD8, CHR 0xAA, CHR 0xD9, CHR 0xBE,
     CHR 0xD8, CHR 0xAF] @ ''. '' @ [CHR 0xD9, CHR 0x85, CHR 0xD9, CHR 0x88, CHR 0xD8, CHR 0xB3,
     CHR 0xDB, CHR 0x8C, CHR 0xD9, CHR 0x82, CHR 0xDB, CHR 0x8C] @ '' '' @ [CHR 0xD8, CHR 0xA7,
     CHR 0xD8, CHR 0xB2] @ '' '' @ [CHR 0xD9, CHR 0x87, CHR 0xD8, CHR 0xB1] @ '' '' @ [CHR 0xD8,
     CHR 0xAF, CHR 0xD8, CHR 0xB1, CHR 0xDB, CHR 0x8C] @ '' '' @ [CHR 0xD8, CHR 0xA8, CHR 0xD9,
     CHR 0x87] @ '' '' @ [CHR 0xD8, CHR 0xA8, CHR 0xDB, CHR 0x8C, CHR 0xD8, CHR 0xB1, CHR 0xD9,
     CHR 0x88, CHR 0xD9, CHR 0x86] @ '' '' @ [CHR 0xD9, CHR 0x85, CHR 0xDB, CHR 0x8C, CHR 0xE2,
     CHR 0x80, CHR 0x8C, CHR 0xD8, CHR 0xB1, CHR 0xDB, CHR 0x8C, CHR 0xD8, CHR 0xB2, CHR 0xD8,
     CHR 0xAF] @ ''.''"

definition industrial_zone_name_fa :: string where
  "industrial_zone_name_fa =
     [CHR 0xD9, CHR 0x85, CHR 0xD9, CHR 0x86, CHR 0xD8, CHR 0xB7, CHR 0xD9, CHR 0x82, CHR 0xD9,
     CHR 0x87] @ '' '' @ [CHR 0xD8, CHR 0xB5, CHR 0xD9, CHR 0x86, CHR 0xD8, CHR 0xB9, CHR 0xD8,
     CHR 0xAA, CHR 0xDB, CHR 0x8C]"

definition industrial_zone_description_en :: string where
  "industrial_zone_description_en =
     ''A gritty, working-class area of factories and warehouses. The smell of metal and sweat hangs in the air.''"

definition industrial_zone_description_fa :: string where
  "industrial_zone_description_fa =
     [CHR 0xD9, CHR 0x85, CHR 0xD9, CHR 0x86, CHR 0xD8, CHR 0xB7, CHR 0xD9, CHR 0x82, CHR 0xD9,
     CHR 0x87, CHR 0xE2, CHR 0x80, CHR 0x8C, CHR 0xD8, CHR 0xA7, CHR 0xDB, CHR 0x8C] @ '' '' @
     [CHR 0xD8, CHR 0xB2, CHR 0xD9, CHR 0x85, CHR 0xD8, CHR 0xAE, CHR 0xD8, CHR 0xAA] @ '' '' @
     [CHR 0xD9, CHR 0x88] @ '' '' @ [CHR 0xDA, CHR 0xA9, CHR 0xD8, CHR 0xA7, CHR 0xD8, CHR 0xB1,
     CHR 0xDA, CHR 0xAF, CHR 0xD8, CHR 0xB1, CHR 0xDB, CHR 0x8C] @ '' '' @ [CHR 0xD9, CHR 0xBE,
     CHR 0xD8, CHR 0xB1] @ '' '' @ [CHR 0xD8, CHR 0xA7, CHR 0xD8, CHR 0xB2] @ '' '' @ [CHR 0xDA,
     CHR 0xA9, CHR 0xD8, CHR 0xA7, CHR 0xD8, CHR 0xB1, CHR 0xD8, CHR 0xAE, CHR 0xD8, CHR 0xA7,
     CHR 0xD9, CHR 0x86, CHR 0xD9, CHR 0x87] @ '' '' @ [CHR 0xD9, CHR 0x88] @ '' '' @ [CHR 0xD8,
     CHR 0xA7, CHR 0xD9, CHR 0x86, CHR 0xD8, CHR 0xA8, CHR 0xD8, CHR 0xA7, CHR 0xD8, CHR 0xB1] @
     ''. '' @ [CHR 0xD8, CHR 0xA8, CHR 0xD9, CHR 0x88, CHR 0xDB, CHR 0x8C] @ '' '' @ [CHR 0xD9,
     CHR 0x81, CHR 0xD9, CHR 0x84, CHR 0xD8, CHR 0xB2] @ '' '' @ [CHR 0xD9, CHR 0x88] @ '' '' @
     [CHR 0xD8, CHR 0xB9, CHR 0xD8, CHR 0xB1, CHR 0xD9, CHR 0x82] @ '' '' @ [CHR 0xD8, CHR 0xAF,
     CHR 0xD8, CHR 0xB1] @ '' '' @ [CHR 0xD9, CHR 0x87, CHR 0xD9, CHR 0x88, CHR 0xD8,
     CHR 0xA7] @ '' '' @ [CHR 0xD9, CHR 0xBE, CHR 0xDB, CHR 0x8C, CHR 0xDA, CHR 0x86, CHR 0xDB,
     CHR 0x8C, CHR 0xD8, CHR 0xAF, CHR 0xD9, CHR 0x87] @ '' '' @ [CHR 0xD8, CHR 0xA7, CHR 0xD8,
     CHR 0xB3, CHR 0xD8, CHR 0xAA] @ ''.''"

definition the_plaza_name_fa :: string where
  "the_plaza_name_fa =
     [CHR 0xD9, CHR 0xBE, CHR 0xD9, CHR 0x84, CHR 0xD8, CHR 0xA7, CHR 0xD8, CHR 0xB2, CHR 0xD8,
     CHR 0xA7]"

definition the_plaza_description_en :: string where
  "the_plaza_description_en =
     ''An open-air plaza with a grand fountain at its center. A place for the public to gather.''"

definition the_plaza_description_fa :: string where
  "the_plaza_description_fa =
     [CHR 0xDB, CHR 0x8C, CHR 0xDA, CHR 0xA9] @ '' '' @ [CHR 0xD9, CHR 0x85, CHR 0xDB, CHR 0x8C,
     CHR 0xD8, CHR 0xAF, CHR 0xD8, CHR 0xA7, CHR 0xD9, CHR 0x86, CHR 0xDA, CHR 0xAF, CHR 0xD8,
     CHR 0xA7, CHR 0xD9, CHR 0x87] @ '' '' @ [CHR 0xD8, CHR 0xA8, CHR 0xD8, CHR 0xA7] @ '' '' @
     [CHR 0xDB, CHR 0x8C, CHR 0xDA, CHR 0xA9] @ '' '' @ [CHR 0xD9, CHR 0x81, CHR 0xD9, CHR 0x88,
     CHR 0xD8, CHR 0xA7, CHR 0xD8, CHR 0xB1, CHR 0xD9, CHR 0x87] @ '' '' @ [CHR 0xD8, CHR 0xA8,
     CHR 0xD8, CHR 0xB2, CHR 0xD8, CHR 0xB1, CHR 0xDA, CHR 0xAF] @ '' '' @ [CHR 0xD8, CHR 0xAF,
     CHR 0xD8, CHR 0xB1] @ '' '' @ [CHR 0xD9, CHR 0x85, CHR 0xD8, CHR 0xB1, CHR 0xDA, CHR 0xA9,
     CHR 0xD8, CHR 0xB2] @ '' '' @ [CHR 0xD8, CHR 0xA2, CHR 0xD9, CHR 0x86] @ ''. '' @
     [CHR 0xD9, CHR 0x85, CHR 0xDA, CHR 0xA9, CHR 0xD8, CHR 0xA7, CHR 0xD9, CHR 0x86, CHR 0xDB,
     CHR 0x8C] @ '' '' @ [CHR 0xD8, CHR 0xA8, CHR 0xD8, CHR 0xB1, CHR 0xD8, CHR 0xA7, CHR 0xDB,
     CHR 0x8C] @ '' '' @ [CHR 0xD8, CHR 0xAA, CHR 0xD8, CHR 0xAC, CHR 0xD9, CHR 0x85, CHR 0xD8,
     CHR 0xB9] @ '' '' @ [CHR 0xD9, CHR 0x85, CHR 0xD8, CHR 0xB1, CHR 0xD8, CHR 0xAF, CHR 0xD9,
     CHR 0x85] @ ''.''"

definition the_onyx_bar_name_fa :: string where
  "the_onyx_bar_name_fa =
     [CHR 0xD8, CHR 0xA8, CHR 0xD8, CHR 0xA7, CHR 0xD8, CHR 0xB1] @ '' '' @ [CHR 0xD8, CHR 0xA7,
     CHR 0xD9, CHR 0x88, CHR 0xD9, CHR 0x86, CHR 0xDB, CHR 0x8C, CHR 0xDA, CHR 0xA9, CHR 0xD8,
     CHR 0xB3]"

definition the_onyx_bar_description_en :: string where
  "the_onyx_bar_description_en =
     ''A classy, dimly lit bar where the city'' @ [CHR 0x27] @
     ''s elite come to make deals in the shadows.''"

definition the_onyx_bar_description_fa :: string where
  "the_onyx_bar_description_fa =
     [CHR 0xDB, CHR 0x8C, CHR 0xDA, CHR 0xA9] @ '' '' @ [CHR 0xD8, CHR 0xA8, CHR 0xD8, CHR 0xA7,
     CHR 0xD8, CHR 0xB1] @ '' '' @ [CHR 0xD8, CHR 0xB4, CHR 0xDB, CHR 0x8C, CHR 0xDA,
     CHR 0xA9] @ '' '' @ [CHR 0xD9, CHR 0x88] @ '' '' @ [CHR 0xDA, CHR 0xA9, CHR 0xD9, CHR 0x85,
     CHR 0xE2, CHR 0x80, CHR 0x8C, CHR 0xD9, CHR 0x86, CHR 0xD9, CHR 0x88, CHR 0xD8, CHR 0xB1] @
     '' '' @ [CHR 0xDA, CHR 0xA9, CHR 0xD9, CHR 0x87] @ '' '' @ [CHR 0xD9, CHR 0x86, CHR 0xD8,
     CHR 0xAE, CHR 0xD8, CHR 0xA8, CHR 0xDA, CHR 0xAF, CHR 0xD8, CHR 0xA7, CHR 0xD9, CHR 0x86] @
     '' '' @ [CHR 0xD8, CHR 0xB4, CHR 0xD9, CHR 0x87, CHR 0xD8, CHR 0xB1] @ '' '' @ [CHR 0xD8,
     CHR 0xA8, CHR 0xD8, CHR 0xB1, CHR 0xD8, CHR 0xA7, CHR 0xDB, CHR 0x8C] @ '' '' @ [CHR 0xD8,
     CHR 0xA7, CHR 0xD9, CHR 0x86, CHR 0xD8, CHR 0xAC, CHR 0xD8, CHR 0xA7, CHR 0xD9, CHR 0x85] @
     '' '' @ [CHR 0xD9, CHR 0x85, CHR 0xD8, CHR 0xB9, CHR 0xD8, CHR 0xA7, CHR 0xD9, CHR 0x85,
     CHR 0xD9, CHR 0x84, CHR 0xD8, CHR 0xA7, CHR 0xD8, CHR 0xAA] @ '' '' @ [CHR 0xD8, CHR 0xAF,
     CHR 0xD8, CHR 0xB1] @ '' '' @ [CHR 0xD8, CHR 0xB3, CHR 0xD8, CHR 0xA7, CHR 0xDB, CHR 0x8C,
     CHR 0xD9, CHR 0x87, CHR 0xE2, CHR 0x80, CHR 0x8C, CHR 0xD9, CHR 0x87, CHR 0xD8, CHR 0xA7] @
     '' '' @ [CHR 0xD8, CHR 0xA8, CHR 0xD9, CHR 0x87] @ '' '' @ [CHR 0xD8, CHR 0xA2, CHR 0xD9,
     CHR 0x86, CHR 0xD8, CHR 0xAC, CHR 0xD8, CHR 0xA7] @ '' '' @ [CHR 0xD9, CHR 0x85, CHR 0xDB,
     CHR 0x8C, CHR 0xE2, CHR 0x80, CHR 0x8C, CHR 0xD8, CHR 0xA2, CHR 0xDB, CHR 0x8C, CHR 0xD9,
     CHR 0x86, CHR 0xD8, CHR 0xAF] @ ''.''"

definition vip_lounge_name_fa :: string where
  "vip_lounge_name_fa =
     [CHR 0xD8, CHR 0xB3, CHR 0xD8, CHR 0xA7, CHR 0xD9, CHR 0x84, CHR 0xD9, CHR 0x86] @ '' VIP''"

definition vip_lounge_description_en :: string where
  "vip_lounge_description_en =
     ''An exclusive, opulent lounge accessible only to the city'' @ [CHR 0x27] @
     ''s most influential.''"

definition vip_lounge_description_fa :: string where
  "vip_lounge_description_fa =
     [CHR 0xDB, CHR 0x8C, CHR 0xDA, CHR 0xA9] @ '' '' @ [CHR 0xD8, CHR 0xB3, CHR 0xD8, CHR 0xA7,
     CHR 0xD9, CHR 0x84, CHR 0xD9, CHR 0x86] @ '' '' @ [CHR 0xD9, CHR 0x85, CHR 0xD8, CHR 0xAC,
     CHR 0xD9, CHR 0x84, CHR 0xD9, CHR 0x84] @ '' '' @ [CHR 0xD9, CHR 0x88] @ '' '' @ [CHR 0xD8,
     CHR 0xA7, CHR 0xD9, CHR 0x86, CHR 0xD8, CHR 0xAD, CHR 0xD8, CHR 0xB5, CHR 0xD8, CHR 0xA7,
     CHR 0xD8, CHR 0xB1, CHR 0xDB, CHR 0x8C] @ '' '' @ [CHR 0xDA, CHR 0xA9, CHR 0xD9,
     CHR 0x87] @ '' '' @ [CHR 0xD9, CHR 0x81, CHR 0xD9, CHR 0x82, CHR 0xD8, CHR 0xB7] @ '' '' @
     [CHR 0xD8, CHR 0xA8, CHR 0xD8, CHR 0xB1, CHR 0xD8, CHR 0xA7, CHR 0xDB, CHR 0x8C] @ '' '' @
     [CHR 0xD8, CHR 0xA7, CHR 0xD9, CHR 0x81, CHR 0xD8, CHR 0xB1, CHR 0xD8, CHR 0xA7, CHR 0xD8,
     CHR 0xAF] @ '' '' @ [CHR 0xD8, CHR 0xA8, CHR 0xD8, CHR 0xA7] @ '' '' @ [CHR 0xD9, CHR 0x86,
     CHR 0xD9, CHR 0x81, CHR 0xD9, CHR 0x88, CHR 0xD8, CHR 0xB0] @ '' '' @ [CHR 0xD8, CHR 0xB4,
     CHR 0xD9, CHR 0x87, CHR 0xD8, CHR 0xB1] @ '' '' @ [CHR 0xD9, CHR 0x82, CHR 0xD8, CHR 0xA7,
     CHR 0xD8, CHR 0xA8, CHR 0xD9, CHR 0x84] @ '' '' @ [CHR 0xD8, CHR 0xAF, CHR 0xD8, CHR 0xB3,
     CHR 0xD8, CHR 0xAA, CHR 0xD8, CHR 0xB1, CHR 0xD8, CHR 0xB3, CHR 0xDB, CHR 0x8C] @ '' '' @
     [CHR 0xD8, CHR 0xA7, CHR 0xD8, CHR 0xB3, CHR 0xD8, CHR 0xAA] @ ''.''"

definition slick_the_bartender_name_fa :: string where
  "slick_the_bartender_name_fa =
     [CHR 0xD8, CHR 0xA7, CHR 0xD8, CHR 0xB3, CHR 0xD9, CHR 0x84, CHR 0xDB, CHR 0x8C, CHR 0xDA,
     CHR 0xA9, CHR 0xD8, CHR 0x8C] @ '' '' @ [CHR 0xD9, CHR 0x85, CHR 0xD8, CHR 0xAA, CHR 0xD8,
     CHR 0xB5, CHR 0xD8, CHR 0xAF, CHR 0xDB, CHR 0x8C] @ '' '' @ [CHR 0xD8, CHR 0xA8, CHR 0xD8,
     CHR 0xA7, CHR 0xD8, CHR 0xB1]"

definition slick_the_bartender_dialogue_en :: string where
  "slick_the_bartender_dialogue_en =
     [CHR 0x27] @
     ''What can I get for you? See a lot of faces in here. Some win, some lose. The city always collects.'' @
     [CHR 0x27]"

definition slick_the_bartender_dialogue_fa :: string where
  "slick_the_bartender_dialogue_fa =
     [CHR 0x27, CHR 0xDA, CHR 0x86, CHR 0xDB, CHR 0x8C] @ '' '' @ [CHR 0xD9, CHR 0x85, CHR 0xDB,
     CHR 0x8C, CHR 0xD9, CHR 0x84] @ '' '' @ [CHR 0xD8, CHR 0xAF, CHR 0xD8, CHR 0xA7, CHR 0xD8,
     CHR 0xB1, CHR 0xDB, CHR 0x8C, CHR 0xD8, CHR 0x9F] @ '' '' @ [CHR 0xDA, CHR 0x86, CHR 0xD9,
     CHR 0x87, CHR 0xD8, CHR 0xB1, CHR 0xD9, CHR 0x87, CHR 0xE2, CHR 0x80, CHR 0x8C, CHR 0xD9,
     CHR 0x87, CHR 0xD8, CHR 0xA7, CHR 0xDB, CHR 0x8C] @ '' '' @ [CHR 0xD8, CHR 0xB2, CHR 0xDB,
     CHR 0x8C, CHR 0xD8, CHR 0xA7, CHR 0xD8, CHR 0xAF, CHR 0xDB, CHR 0x8C] @ '' '' @ [CHR 0xD8,
     CHR 0xA7, CHR 0xDB, CHR 0x8C, CHR 0xD9, CHR 0x86, CHR 0xD8, CHR 0xAC, CHR 0xD8, CHR 0xA7] @
     '' '' @ [CHR 0xD9, CHR 0x85, CHR 0xDB, CHR 0x8C, CHR 0xE2, CHR 0x80, CHR 0x8C, CHR 0xD8,
     CHR 0xA8, CHR 0xDB, CHR 0x8C, CHR 0xD9, CHR 0x86, CHR 0xD9, CHR 0x85] @ ''. '' @ [CHR 0xD8,
     CHR 0xA8, CHR 0xD8, CHR 0xB9, CHR 0xD8, CHR 0xB6, CHR 0xDB, CHR 0x8C, CHR 0xE2, CHR 0x80,
     CHR 0x8C, CHR 0xD9, CHR 0x87, CHR 0xD8, CHR 0xA7] @ '' '' @ [CHR 0xD9, CHR 0x85, CHR 0xDB,
     CHR 0x8C, CHR 0xE2, CHR 0x80, CHR 0x8C, CHR 0xD8, CHR 0xA8, CHR 0xD8, CHR 0xB1, CHR 0xD9,
     CHR 0x86, CHR 0xD8, CHR 0x8C] @ '' '' @ [CHR 0xD8, CHR 0xA8, CHR 0xD8, CHR 0xB9, CHR 0xD8,
     CHR 0xB6, CHR 0xDB, CHR 0x8C, CHR 0xE2, CHR 0x80, CHR 0x8C, CHR 0xD9, CHR 0x87, CHR 0xD8,
     CHR 0xA7] @ '' '' @ [CHR 0xD9, CHR 0x85, CHR 0xDB, CHR 0x8C, CHR 0xE2, CHR 0x80, CHR 0x8C,
     CHR 0xD8, CHR 0xA8, CHR 0xD8, CHR 0xA7, CHR 0xD8, CHR 0xB2, CHR 0xD9, CHR 0x86] @ ''. '' @
     [CHR 0xD8, CHR 0xB4, CHR 0xD9, CHR 0x87, CHR 0xD8, CHR 0xB1] @ '' '' @ [CHR 0xD9, CHR 0x87,
     CHR 0xD9, CHR 0x85, CHR 0xDB, CHR 0x8C, CHR 0xD8, CHR 0xB4, CHR 0xD9, CHR 0x87] @ '' '' @
     [CHR 0xD8, CHR 0xAD, CHR 0xD9, CHR 0x82, CHR 0xD8, CHR 0xB4, CHR 0xD9, CHR 0x88] @ '' '' @
     [CHR 0xD9, CHR 0x85, CHR 0xDB, CHR 0x8C, CHR 0xE2, CHR 0x80, CHR 0x8C, CHR 0xDA, CHR 0xAF,
     CHR 0xDB, CHR 0x8C, CHR 0xD8, CHR 0xB1, CHR 0xD9, CHR 0x87] @ ''.'' @ [CHR 0x27]"

definition GAME_MAP_items :: "(string \<times> district) list" where
  "GAME_MAP_items =
     [(''downtown'',
        \<lparr> name_en = ''Downtown'', name_fa = downtown_name_fa,
          description_en = downtown_description_en,
          description_fa = downtown_description_fa,
          connections = [''neon_district'', ''industrial_zone'', ''the_plaza''],
          locations = [''the_onyx_bar'', ''vip_lounge''] \<rparr>),
      (''neon_district'',
        \<lparr> name_en = ''Neon District'', name_fa = neon_district_name_fa,
          description_en = neon_district_description_en,
          description_fa = neon_district_description_fa,
          connections = [''downtown''],
          locations = [] \<rparr>),
      (''industrial_zone'',
        \<lparr> name_en = ''Industrial Zone'', name_fa = industrial_zone_name_fa,
          description_en = industrial_zone_description_en,
          description_fa = industrial_zone_description_fa,
          connections = [''downtown''],
          locations = [] \<rparr>),
      (''the_plaza'',
        \<lparr> name_en = ''The Plaza'', name_fa = the_plaza_name_fa,
          description_en = the_plaza_description_en,
          description_fa = the_plaza_description_fa,
          connections = [''downtown''],
          locations = [] \<rparr>)]"

definition LOCATIONS_items :: "(string \<times> place) list" where
  "LOCATIONS_items =
     [(''the_onyx_bar'',
        \<lparr> name_en = ''The Onyx Bar'', name_fa = the_onyx_bar_name_fa,
          description_en = the_onyx_bar_description_en,
          description_fa = the_onyx_bar_description_fa,
          npcs = [''slick_the_bartender''],
          requires_vip = None \<rparr>),
      (''vip_lounge'',
        \<lparr> name_en = ''The VIP Lounge'', name_fa = vip_lounge_name_fa,
          description_en = vip_lounge_description_en,
          description_fa = vip_lounge_description_fa,
          npcs = [],
          requires_vip = Some True \<rparr>)]"

definition NPCS_items :: "(string \<times> npc) list" where
  "NPCS_items =
     [(''slick_the_bartender'',
        \<lparr> name_en = ''Slick, the Bartender'', name_fa = slick_the_bartender_name_fa,
          dialogue_en = slick_the_bartender_dialogue_en,
          dialogue_fa = slick_the_bartender_dialogue_fa \<rparr>)]"

definition GAME_MAP :: "string \<rightharpoonup> district" where
  "GAME_MAP = map_of GAME_MAP_items"

definition LOCATIONS :: "string \<rightharpoonup> place" where
  "LOCATIONS = map_of LOCATIONS_items"

definition NPCS :: "string \<rightharpoonup> npc" where
  "NPCS = map_of NPCS_items"

text \<open>
  The lookups \<open>info[f'name_{lang}']\<close>, \<open>info[f'description_{lang}']\<close> and
  \<open>info[f'dialogue_{lang}']\<close>: the key exists for the two languages only.
\<close>

definition name_of :: "string \<Rightarrow> 'a named_scheme \<Rightarrow> string option" where
  "name_of lg d =
     (if lg = ''en'' then Some (name_en d) else if lg = ''fa'' then Some (name_fa d) else None)"

definition description_of :: "string \<Rightarrow> 'a described_scheme \<Rightarrow> string option" where
  "description_of lg d =
     (if lg = ''en'' then Some (description_en d)
      else if lg = ''fa'' then Some (description_fa d) else None)"

definition dialogue_of :: "string \<Rightarrow> npc \<Rightarrow> string option" where
  "dialogue_of lg d =
     (if lg = ''en'' then Some (dialogue_en d)
      else if lg = ''fa'' then Some (dialogue_fa d) else None)"

section \<open>Environment, exceptions and outputs\<close>

datatype exc = KeyError | ValueError | IndexError | AttributeError | TypeError

datatype py_val = Str_val string | Int_val int | None_val

text \<open>
  What the handlers take from outside the module: the configured admin id, the locale
  tables read at start-up, and functions of the runtime: \<open>str.format\<close> (which may
  raise), \<open>int\<close> on a string (\<open>None\<close> stands for its \<open>ValueError\<close>), \<open>json.dumps\<close> of a
  player record, \<open>str.lower\<close> and \<open>str.upper\<close>, \<open>str\<close> of a caught exception, and the order
  in which \<open>items()\<close> yields the entries of the loaded collection.
\<close>

record env =
  ADMIN_USER_ID :: int
  locales :: "string \<rightharpoonup> (string \<rightharpoonup> string)"
  str_format :: "string \<Rightarrow> (string \<times> py_val) list \<Rightarrow> exc + string"
  int_of_str :: "string \<Rightarrow> int option"
  json_dumps :: "player \<Rightarrow> string"
  lower :: "string \<Rightarrow> string"
  upper :: "string \<Rightarrow> string"
  str_exc :: "exc \<Rightarrow> string"
  items :: "(string \<rightharpoonup> player) \<Rightarrow> (string \<times> player) list"

definition get_text :: "env \<Rightarrow> string \<Rightarrow> string \<Rightarrow> (string \<times> py_val) list \<Rightarrow> exc + string" where
  "get_text env key lg kwargs =
     str_format env
       (case locales env lg of
          None \<Rightarrow> key
        | Some d \<Rightarrow> (case d key of None \<Rightarrow> key | Some t \<Rightarrow> t))
       kwargs"

definition is_admin :: "env \<Rightarrow> int \<Rightarrow> bool" where
  "is_admin env user_id = (user_id = ADMIN_USER_ID env)"

text \<open>An inline keyboard: rows of buttons, each a label and its callback data.\<close>

type_synonym keyboard = "(string \<times> string) list list"

text \<open>The calls to the chat transport, in the order they are made.\<close>

datatype out =
    Answer
  | Reply_text string "keyboard option"
  | Edit_message_text string "keyboard option"
  | Edit_message_reply_markup
  | Send_message py_id string "keyboard option"
  | Send_voice py_id "string option" keyboard

text \<open>
  The state the handlers share: the file of player records and, per user, the entry
  \<open>next_step\<close> of \<open>context.user_data\<close> (\<open>None\<close> when absent or set to \<open>None\<close>).
\<close>

record bot =
  players_json :: db_file
  next_step :: "int \<Rightarrow> string option"

text \<open>
  A handler yields the exception it ended with, if any, the transport calls it made, and
  the state it left: a write made before an exception stays made.
\<close>

type_synonym result = "exc option \<times> out list \<times> bot"

definition and_then :: "exc + 'a \<Rightarrow> ('a \<Rightarrow> exc + 'b) \<Rightarrow> exc + 'b" where
  "and_then r k = (case r of Inl e \<Rightarrow> Inl e | Inr x \<Rightarrow> k x)"

definition getitem :: "('k \<rightharpoonup> 'v) \<Rightarrow> 'k \<Rightarrow> exc + 'v" where
  "getitem d k = (case d k of None \<Rightarrow> Inl KeyError | Some v \<Rightarrow> Inr v)"

definition present :: "'v option \<Rightarrow> exc + 'v" where
  "present v = (case v of None \<Rightarrow> Inl KeyError | Some x \<Rightarrow> Inr x)"

definition finish :: "exc + out list \<Rightarrow> bot \<Rightarrow> result" where
  "finish r st = (case r of Inl e \<Rightarrow> (Some e, [], st) | Inr os \<Rightarrow> (None, os, st))"

definition emit :: "out list \<Rightarrow> result \<Rightarrow> result" where
  "emit os r = (case r of (e, os', st) \<Rightarrow> (e, os @ os', st))"

definition and_next :: "result \<Rightarrow> (bot \<Rightarrow> result) \<Rightarrow> result" where
  "and_next r k =
     (case r of
        (Some e, os, st) \<Rightarrow> (Some e, os, st)
      | (None, os, st) \<Rightarrow> emit os (k st))"

definition opt_val :: "string option \<Rightarrow> py_val" where
  "opt_val v = (case v of None \<Rightarrow> None_val | Some s \<Rightarrow> Str_val s)"

definition nl :: string where
  "nl = [CHR 0x0A]"

definition pin :: string where
  "pin = [CHR 0xF0, CHR 0x9F, CHR 0x93, CHR 0x8D] @ '' ''"

definition laquo :: string where
  "laquo = [CHR 0xC2, CHR 0xAB] @ '' ''"

definition speaking_head :: string where
  "speaking_head = [CHR 0xF0, CHR 0x9F, CHR 0x97, CHR 0xA3, CHR 0xEF, CHR 0xB8, CHR 0x8F] @ '' ''"

definition approve_label :: string where
  "approve_label = [CHR 0xE2, CHR 0x9C, CHR 0x85] @ '' Approve''"

definition reject_label :: string where
  "reject_label = [CHR 0xE2, CHR 0x9D, CHR 0x8C] @ '' Reject''"

definition persian_label :: string where
  "persian_label =
     [CHR 0xD9, CHR 0x81, CHR 0xD8, CHR 0xA7, CHR 0xD8, CHR 0xB1, CHR 0xD8, CHR 0xB3, CHR 0xDB,
     CHR 0x8C] @ '' (Persian)''"

definition choose_language :: string where
  "choose_language =
     ''Choose your language / '' @ [CHR 0xD8, CHR 0xB2, CHR 0xD8, CHR 0xA8, CHR 0xD8, CHR 0xA7,
     CHR 0xD9, CHR 0x86] @ '' '' @ [CHR 0xD8, CHR 0xAE, CHR 0xD9, CHR 0x88, CHR 0xD8,
     CHR 0xAF] @ '' '' @ [CHR 0xD8, CHR 0xB1, CHR 0xD8, CHR 0xA7] @ '' '' @ [CHR 0xD8, CHR 0xA7,
     CHR 0xD9, CHR 0x86, CHR 0xD8, CHR 0xAA, CHR 0xD8, CHR 0xAE, CHR 0xD8, CHR 0xA7, CHR 0xD8,
     CHR 0xA8] @ '' '' @ [CHR 0xDA, CHR 0xA9, CHR 0xD9, CHR 0x86, CHR 0xDB, CHR 0x8C, CHR 0xD8,
     CHR 0xAF]"

section \<open>Menus and prompts\<close>

text \<open>
  \<open>show_main_menu\<close>: the five labels and the prompt are looked up in this order; the
  menu replaces the message of a callback query, or is sent as a new message otherwise.
\<close>

definition show_main_menu :: "env \<Rightarrow> bool \<Rightarrow> int \<Rightarrow> db_file \<Rightarrow> exc + out list" where
  "show_main_menu env from_callback user_id f =
     (let player_state = get_player_state (Int_id user_id) f;
          lg = lang player_state
      in and_then (get_text env ''menu_look'' lg []) (\<lambda>look.
         and_then (get_text env ''menu_move'' lg []) (\<lambda>move.
         and_then (get_text env ''menu_profile'' lg []) (\<lambda>profile.
         and_then (get_text env ''menu_inventory'' lg []) (\<lambda>inv.
         and_then (get_text env ''menu_language'' lg []) (\<lambda>language.
         and_then (get_text env ''main_menu_prompt'' lg []) (\<lambda>message_text.
           let keyboard = [[(look, ''main_look'')], [(move, ''main_move'')],
                           [(profile, ''main_profile'')], [(inv, ''main_inventory'')],
                           [(language, ''main_language'')]]
           in Inr [if from_callback then Edit_message_text message_text (Some keyboard)
                   else Send_message (Int_id user_id) message_text (Some keyboard)])))))))"

text \<open>
  \<open>character_creation_prompt\<close> sets the cursor in the \<open>context\<close> it is given, which is
  the one of the user whose update is being handled (\<open>caller\<close>), and writes to \<open>user_id\<close>.
\<close>

definition character_creation_prompt :: "env \<Rightarrow> int \<Rightarrow> int \<Rightarrow> bot \<Rightarrow> result" where
  "character_creation_prompt env caller user_id st =
     (let player_state = get_player_state (Int_id user_id) (players_json st);
          lg = lang player_state;
          st1 = st\<lparr>next_step := (next_step st)(caller := Some ''create_character_name'')\<rparr>
      in finish
           (and_then (get_text env ''character_creation_name'' lg []) (\<lambda>t.
              Inr [Send_message (Int_id user_id) t None]))
           st1)"

section \<open>Command handlers\<close>

definition choose_language_welcome :: string where
  "choose_language_welcome =
     ''Welcome to Crimson City. Please choose your language.'' @ [CHR 0x0A, CHR 0x0A, CHR 0xD8,
     CHR 0xA8, CHR 0xD9, CHR 0x87] @ '' '' @ [CHR 0xD8, CHR 0xB4, CHR 0xD9, CHR 0x87, CHR 0xD8,
     CHR 0xB1] @ '' '' @ [CHR 0xDA, CHR 0xA9, CHR 0xD8, CHR 0xB1, CHR 0xDB, CHR 0x8C, CHR 0xD9,
     CHR 0x85, CHR 0xD8, CHR 0xB3, CHR 0xD9, CHR 0x88, CHR 0xD9, CHR 0x86] @ '' '' @ [CHR 0xD8,
     CHR 0xAE, CHR 0xD9, CHR 0x88, CHR 0xD8, CHR 0xB4] @ '' '' @ [CHR 0xD8, CHR 0xA2, CHR 0xD9,
     CHR 0x85, CHR 0xD8, CHR 0xAF, CHR 0xDB, CHR 0x8C, CHR 0xD8, CHR 0xAF] @ ''. '' @ [CHR 0xD9,
     CHR 0x84, CHR 0xD8, CHR 0xB7, CHR 0xD9, CHR 0x81, CHR 0xD8, CHR 0xA7, CHR 0xD9, CHR 0x8B] @
     '' '' @ [CHR 0xD8, CHR 0xB2, CHR 0xD8, CHR 0xA8, CHR 0xD8, CHR 0xA7, CHR 0xD9, CHR 0x86] @
     '' '' @ [CHR 0xD8, CHR 0xAE, CHR 0xD9, CHR 0x88, CHR 0xD8, CHR 0xAF] @ '' '' @ [CHR 0xD8,
     CHR 0xB1, CHR 0xD8, CHR 0xA7] @ '' '' @ [CHR 0xD8, CHR 0xA7, CHR 0xD9, CHR 0x86, CHR 0xD8,
     CHR 0xAA, CHR 0xD8, CHR 0xAE, CHR 0xD8, CHR 0xA7, CHR 0xD8, CHR 0xA8] @ '' '' @ [CHR 0xDA,
     CHR 0xA9, CHR 0xD9, CHR 0x86, CHR 0xDB, CHR 0x8C, CHR 0xD8, CHR 0xAF] @ ''.''"

definition start_command :: "env \<Rightarrow> int \<Rightarrow> bot \<Rightarrow> result" where
  "start_command env user_id st =
     (let player_state = get_player_state (Int_id user_id) (players_json st)
      in if approved player_state then
           (if \<not> character_created player_state then
              character_creation_prompt env user_id user_id st
            else
              (let lg = lang player_state
               in case get_text env ''welcome_back'' lg
                         [(''name'', opt_val (name player_state))] of
                    Inl e \<Rightarrow> (Some e, [], st)
                  | Inr t \<Rightarrow>
                      emit [Reply_text t None]
                        (finish (show_main_menu env False user_id (players_json st)) st)))
         else if pending_approval player_state then
           (let lg = lang player_state
            in finish (and_then (get_text env ''approval_pending'' lg []) (\<lambda>t.
                         Inr [Reply_text t None])) st)
         else
           (None,
            [Reply_text choose_language_welcome
               (Some [[(''English'', ''set_lang_en'')], [(persian_label, ''set_lang_fa'')]])],
            st))"

section \<open>Message and voice handlers\<close>

definition message_handler :: "env \<Rightarrow> int \<Rightarrow> string \<Rightarrow> bot \<Rightarrow> result" where
  "message_handler env user_id text st =
     (let player_state = get_player_state (Int_id user_id) (players_json st);
          step = next_step st user_id
      in if \<not> approved player_state then (None, [], st)
         else if step = Some ''create_character_name'' then
           (let lg = lang player_state;
                player_state = player_state\<lparr>name := Some text\<rparr>;
                st1 = st\<lparr>players_json :=
                         update_player_state (Int_id user_id) player_state (players_json st)\<rparr>
            in case and_then (get_text env ''prof_hustler'' lg []) (\<lambda>h.
                    and_then (get_text env ''prof_intellectual'' lg []) (\<lambda>i.
                    and_then (get_text env ''prof_charmer'' lg []) (\<lambda>c.
                    and_then (get_text env ''character_creation_profession'' lg []) (\<lambda>t.
                      Inr [Reply_text t
                             (Some [[(h, ''set_prof_hustler'')], [(i, ''set_prof_intellectual'')],
                                    [(c, ''set_prof_charmer'')]])])))) of
                 Inl e \<Rightarrow> (Some e, [], st1)
               | Inr os \<Rightarrow> (None, os, st1\<lparr>next_step := (next_step st1)(user_id := None)\<rparr>))
         else (None, [], st))"

definition voice_handler :: "env \<Rightarrow> int \<Rightarrow> string \<Rightarrow> string \<Rightarrow> bot \<Rightarrow> result" where
  "voice_handler env user_id full_name file_id st =
     (let player_state = get_player_state (Int_id user_id) (players_json st);
          lg = lang player_state
      in if approved player_state \<or> pending_approval player_state then
           finish (and_then (get_text env ''voice_already_submitted'' lg []) (\<lambda>t.
                     Inr [Reply_text t None])) st
         else
           (let player_state = player_state\<lparr>pending_approval := True,
                                             voice_file_id := Some file_id\<rparr>;
                st1 = st\<lparr>players_json :=
                         update_player_state (Int_id user_id) player_state (players_json st)\<rparr>;
                keyboard = [[(approve_label, ''approve_'' @ str_int user_id),
                             (reject_label, ''reject_'' @ str_int user_id)]]
            in finish
                 (and_then (get_text env ''approval_pending'' lg []) (\<lambda>t.
                    Inr [Reply_text t None,
                         Send_message (Int_id (ADMIN_USER_ID env))
                           (''New user for approval: '' @ full_name @ '' (ID: ''
                              @ str_int user_id @ '')'') None,
                         Send_voice (Int_id (ADMIN_USER_ID env)) (voice_file_id player_state)
                           keyboard]))
                 st1))"

section \<open>The button handler\<close>

text \<open>The approve and reject buttons below a submitted voice message.\<close>

definition admin_approval :: "env \<Rightarrow> int \<Rightarrow> string \<Rightarrow> bot \<Rightarrow> result" where
  "admin_approval env user_id data st =
     (if \<not> is_admin env user_id then (None, [], st)
      else case split_on CHR ''_'' data of
        [action, target_user_id_str] \<Rightarrow>
          (case int_of_str env target_user_id_str of
             None \<Rightarrow> (Some ValueError, [], st)
           | Some target_user_id \<Rightarrow>
               (let target_player_state =
                      get_player_state (Int_id target_user_id) (players_json st)
                in if action = ''approve'' then
                     (let target_player_state =
                            target_player_state\<lparr>approved := True, pending_approval := False\<rparr>;
                          st1 = st\<lparr>players_json :=
                                   update_player_state (Int_id target_user_id)
                                     target_player_state (players_json st)\<rparr>;
                          target_lang = lang target_player_state
                      in emit [Edit_message_reply_markup,
                               Send_message (Int_id (ADMIN_USER_ID env))
                                 (''User '' @ str_int target_user_id @ '' approved.'') None]
                           (case get_text env ''approval_success'' target_lang [] of
                              Inl e \<Rightarrow> (Some e, [], st1)
                            | Inr t \<Rightarrow>
                                emit [Send_message (Int_id target_user_id) t None]
                                  (character_creation_prompt env user_id target_user_id st1)))
                   else
                     (let players = load_player_data (players_json st)
                      in case players target_user_id_str of
                           None \<Rightarrow> (Some KeyError, [], st)
                         | Some gone \<Rightarrow>
                             (None,
                              [Edit_message_reply_markup,
                               Send_message (Int_id (ADMIN_USER_ID env))
                                 (''User '' @ str_int target_user_id
                                    @ '' rejected and data deleted.'') None],
                              st\<lparr>players_json :=
                                   save_player_data (players(target_user_id_str := None))\<rparr>))))
      | _ \<Rightarrow> (Some ValueError, [], st))"

definition set_lang :: "env \<Rightarrow> int \<Rightarrow> string \<Rightarrow> player \<Rightarrow> bot \<Rightarrow> result" where
  "set_lang env user_id data player_state st =
     (let lang_code = last (split_on CHR ''_'' data);
          player_state = player_state\<lparr>lang := lang_code\<rparr>;
          st1 = st\<lparr>players_json :=
                   update_player_state (Int_id user_id) player_state (players_json st)\<rparr>
      in case get_text env ''voice_prompt'' lang_code [] of
           Inl e \<Rightarrow> (Some e, [], st1)
         | Inr t \<Rightarrow>
             (None, [Edit_message_text t None],
              st1\<lparr>next_step := (next_step st1)(user_id := Some ''submit_voice'')\<rparr>))"

definition set_prof :: "env \<Rightarrow> int \<Rightarrow> string \<Rightarrow> player \<Rightarrow> string \<Rightarrow> bot \<Rightarrow> result" where
  "set_prof env user_id data player_state lg st =
     (let prof = last (split_on CHR ''_'' data);
          player_state = player_state\<lparr>profession := Some prof\<rparr>;
          player_state =
            (if prof = ''hustler'' then
               player_state\<lparr>stats := (stats player_state)
                 \<lparr>street_smarts := street_smarts (stats player_state) + 2\<rparr>\<rparr>
             else if prof = ''intellectual'' then
               player_state\<lparr>stats := (stats player_state)
                 \<lparr>intellect := intellect (stats player_state) + 2\<rparr>\<rparr>
             else if prof = ''charmer'' then
               player_state\<lparr>stats := (stats player_state)
                 \<lparr>charm := charm (stats player_state) + 2\<rparr>\<rparr>
             else player_state);
          player_state = player_state\<lparr>character_created := True\<rparr>;
          st1 = st\<lparr>players_json :=
                   update_player_state (Int_id user_id) player_state (players_json st)\<rparr>
      in case get_text env ''character_creation_complete'' lg
                [(''name'', opt_val (name player_state))] of
           Inl e \<Rightarrow> (Some e, [], st1)
         | Inr t \<Rightarrow>
             emit [Edit_message_text t None]
               (finish (show_main_menu env True user_id (players_json st1)) st1))"

text \<open>
  The loop of \<open>main_look\<close> over the places of a district: a place that requires VIP is
  skipped for a player who is not VIP, any other place adds a line to the text.
\<close>

fun places_loop :: "string \<Rightarrow> player \<Rightarrow> string list \<Rightarrow> string \<Rightarrow> exc + string" where
  "places_loop lg player_state [] text = Inr text"
| "places_loop lg player_state (loc_key # rest) text =
     (case LOCATIONS loc_key of
        None \<Rightarrow> Inl KeyError
      | Some loc \<Rightarrow>
          if (case requires_vip loc of None \<Rightarrow> False | Some b \<Rightarrow> b) \<and> \<not> is_vip player_state
          then places_loop lg player_state rest text
          else (case name_of lg loc of
                  None \<Rightarrow> Inl KeyError
                | Some loc_name \<Rightarrow>
                    places_loop lg player_state rest (text @ nl @ ''- '' @ loc_name)))"

text \<open>The loop over the NPCs: each adds a talk button in front of the keyboard.\<close>

fun npcs_loop :: "env \<Rightarrow> string \<Rightarrow> string list \<Rightarrow> keyboard \<Rightarrow> exc + keyboard" where
  "npcs_loop env lg [] keyboard = Inr keyboard"
| "npcs_loop env lg (npc_key # rest) keyboard =
     and_then (getitem NPCS npc_key) (\<lambda>n.
     and_then (present (name_of lg n)) (\<lambda>npc_name.
     and_then (get_text env ''talk_to'' lg []) (\<lambda>talk.
       npcs_loop env lg rest
         ([(speaking_head @ talk @ '' '' @ npc_name, ''talk_'' @ npc_key)] # keyboard))))"

definition main_look :: "env \<Rightarrow> int \<Rightarrow> player \<Rightarrow> string \<Rightarrow> db_file \<Rightarrow> exc + out list" where
  "main_look env user_id player_state lg f =
     (let current_location_key = location player_state
      in and_then (getitem GAME_MAP current_location_key) (\<lambda>location_info.
         and_then (present (name_of lg location_info)) (\<lambda>location_name.
         and_then (present (description_of lg location_info)) (\<lambda>location_desc.
         let text = pin @ ''*'' @ location_name @ ''*'' @ nl @ nl @ location_desc;
             admin_state = get_player_state (Int_id (ADMIN_USER_ID env)) f
         in and_then
              (if location admin_state = current_location_key \<and> \<not> is_admin env user_id
               then and_then (get_text env ''god_presence'' lg []) (\<lambda>g.
                      Inr (text @ nl @ nl @ ''_'' @ g @ ''_''))
               else Inr text) (\<lambda>text.
            and_then (get_text env ''back_button'' lg []) (\<lambda>back.
            let keyboard = [[(laquo @ back, ''main_back'')]]
            in and_then
                 (if locations location_info \<noteq> []
                  then and_then (get_text env ''places_in_district'' lg []) (\<lambda>p.
                         places_loop lg player_state (locations location_info)
                           (text @ nl @ nl @ p @ '':''))
                  else Inr text) (\<lambda>text.
               and_then
                 (case LOCATIONS current_location_key of
                    None \<Rightarrow> Inr (text, keyboard)
                  | Some here \<Rightarrow>
                      if npcs here \<noteq> []
                      then and_then (get_text env ''npcs_in_area'' lg []) (\<lambda>n.
                           and_then (npcs_loop env lg (npcs here) keyboard) (\<lambda>keyboard.
                             Inr (text @ nl @ nl @ n @ '':'', keyboard)))
                      else Inr (text, keyboard)) (\<lambda>(text, keyboard).
               Inr [Edit_message_text text (Some keyboard)]))))))))"

fun connections_loop :: "string \<Rightarrow> string list \<Rightarrow> exc + keyboard" where
  "connections_loop lg [] = Inr []"
| "connections_loop lg (conn_key # rest) =
     and_then (getitem GAME_MAP conn_key) (\<lambda>c.
     and_then (present (name_of lg c)) (\<lambda>conn_name.
     and_then (connections_loop lg rest) (\<lambda>keyboard.
       Inr ([(conn_name, ''move_to_'' @ conn_key)] # keyboard))))"

definition main_move :: "env \<Rightarrow> player \<Rightarrow> string \<Rightarrow> exc + out list" where
  "main_move env player_state lg =
     (let current_location_key = location player_state
      in and_then (getitem GAME_MAP current_location_key) (\<lambda>here.
         and_then (connections_loop lg (connections here)) (\<lambda>keyboard.
         and_then (get_text env ''back_button'' lg []) (\<lambda>back.
         and_then (get_text env ''move_prompt'' lg []) (\<lambda>t.
           Inr [Edit_message_text t (Some (keyboard @ [[(laquo @ back, ''main_back'')]]))])))))"

definition main_profile :: "env \<Rightarrow> player \<Rightarrow> string \<Rightarrow> exc + out list" where
  "main_profile env player_state lg =
     (let st = stats player_state
      in and_then (if is_vip player_state then get_text env ''vip_status_yes'' lg []
                   else get_text env ''vip_status_no'' lg []) (\<lambda>vip_status.
         and_then (get_text env
                     (''prof_'' @ (case profession player_state of None \<Rightarrow> ''None'' | Some p \<Rightarrow> p))
                     lg []) (\<lambda>prof.
         and_then (get_text env ''profile_view'' lg
                     [(''name'', opt_val (name player_state)), (''profession'', Str_val prof),
                      (''charm'', Int_val (charm st)), (''intellect'', Int_val (intellect st)),
                      (''street_smarts'', Int_val (street_smarts st)),
                      (''currency'', Int_val (currency player_state)),
                      (''vip_status'', Str_val vip_status)]) (\<lambda>profile_text.
           Inr [Edit_message_text profile_text None]))))"

definition main_inventory :: "env \<Rightarrow> player \<Rightarrow> string \<Rightarrow> exc + out list" where
  "main_inventory env player_state lg =
     (let inv = inventory player_state
      in and_then
           (if inv = [] then get_text env ''inventory_empty'' lg []
            else and_then (get_text env ''menu_inventory'' lg []) (\<lambda>t.
                   Inr (''*'' @ t @ ''*'' @ nl @ concat (map (\<lambda>item. ''- '' @ item @ nl) inv))))
           (\<lambda>text. Inr [Edit_message_text text None]))"

text \<open>The chain \<open>if ... elif ...\<close> on the six payloads of the main menu.\<close>

definition main_menu_actions :: "env \<Rightarrow> int \<Rightarrow> string \<Rightarrow> player \<Rightarrow> string \<Rightarrow> bot \<Rightarrow> result" where
  "main_menu_actions env user_id data player_state lg st =
     (let f = players_json st
      in if data = ''main_look'' then finish (main_look env user_id player_state lg f) st
         else if data = ''main_move'' then finish (main_move env player_state lg) st
         else if data = ''main_profile'' then
           and_next (finish (main_profile env player_state lg) st)
             (\<lambda>st. finish (show_main_menu env True user_id (players_json st)) st)
         else if data = ''main_inventory'' then
           and_next (finish (main_inventory env player_state lg) st)
             (\<lambda>st. finish (show_main_menu env True user_id (players_json st)) st)
         else if data = ''main_language'' then
           (None,
            [Edit_message_text choose_language
               (Some [[(''English'', ''set_lang_en'')], [(persian_label, ''set_lang_fa'')]])],
            st)
         else if data = ''main_back'' then finish (show_main_menu env True user_id f) st
         else (None, [], st))"

text \<open>
  Movement: the destination is written into the record and the record is saved; only then
  is the destination looked up in \<open>GAME_MAP\<close> for its name.
\<close>

definition move_to :: "env \<Rightarrow> int \<Rightarrow> string \<Rightarrow> player \<Rightarrow> string \<Rightarrow> bot \<Rightarrow> result" where
  "move_to env user_id data player_state lg st =
     (let destination_key = remove_all ''move_to_'' data;
          player_state = player_state\<lparr>location := destination_key\<rparr>;
          st1 = st\<lparr>players_json :=
                   update_player_state (Int_id user_id) player_state (players_json st)\<rparr>
      in case and_then (getitem GAME_MAP destination_key) (\<lambda>d.
              and_then (present (name_of lg d)) (\<lambda>destination_name.
                get_text env ''move_success'' lg [(''location'', Str_val destination_name)])) of
           Inl e \<Rightarrow> (Some e, [], st1)
         | Inr t \<Rightarrow>
             emit [Edit_message_text t None]
               (finish (show_main_menu env True user_id (players_json st1)) st1))"

definition talk :: "env \<Rightarrow> int \<Rightarrow> string \<Rightarrow> string \<Rightarrow> bot \<Rightarrow> result" where
  "talk env user_id data lg st =
     (let npc_key = remove_all ''talk_'' data
      in case and_then (getitem NPCS npc_key) (\<lambda>n. present (dialogue_of lg n)) of
           Inl e \<Rightarrow> (Some e, [], st)
         | Inr npc_dialogue \<Rightarrow>
             emit [Edit_message_text (''_'' @ npc_dialogue @ ''_'') None]
               (finish (show_main_menu env True user_id (players_json st)) st))"

text \<open>
  \<open>button_actions\<close> is the body of \<open>button_handler\<close> from the statement
  \<open>player_state = get_player_state(user_id)\<close> on, with \<open>user_id\<close> and \<open>data\<close> (the callback
  data) given. The first three blocks return; the menu chain and the two blocks after it
  are separate statements, run one after the other.
\<close>

definition button_actions :: "env \<Rightarrow> int \<Rightarrow> string \<Rightarrow> bot \<Rightarrow> result" where
  "button_actions env user_id data st =
     (let player_state = get_player_state (Int_id user_id) (players_json st);
          lg = lang player_state
      in if startswith data ''approve_'' \<or> startswith data ''reject_'' then
           admin_approval env user_id data st
         else if startswith data ''set_lang_'' then
           set_lang env user_id data player_state st
         else if startswith data ''set_prof_'' then
           set_prof env user_id data player_state lg st
         else
           and_next (main_menu_actions env user_id data player_state lg st) (\<lambda>st.
           and_next (if startswith data ''move_to_''
                then move_to env user_id data player_state lg st
                else (None, [], st)) (\<lambda>st.
             if startswith data ''talk_''
             then talk env user_id data lg st
             else (None, [], st))))"

text \<open>
  The callback query of an update, as the transport library hands it to the handler: an
  object with the attributes \<open>from_user\<close> (here the id of the user who pressed the button)
  and \<open>data\<close> (the callback data of the button), among others that the handler does not
  read.
\<close>

record callback_query =
  from_user :: int
  callback_data :: string

text \<open>
  The read \<open>query.effective_user\<close>. The attribute \<open>effective_user\<close> belongs to the update, where
  the other handlers read it; a callback query has \<open>from_user\<close> and no attribute of that
  name, so the read raises \<open>AttributeError\<close> for every query.
\<close>

definition effective_user :: "callback_query \<Rightarrow> exc + int" where
  "effective_user query = Inl AttributeError"

text \<open>
  \<open>button_handler\<close>: the query is answered, then the user id is read from it, and only then
  the body runs.
\<close>

definition button_handler :: "env \<Rightarrow> callback_query \<Rightarrow> bot \<Rightarrow> result" where
  "button_handler env query st =
     emit [Answer]
       (case effective_user query of
          Inl e \<Rightarrow> (Some e, [], st)
        | Inr user_id \<Rightarrow> button_actions env user_id (callback_data query) st)"

section \<open>Admin commands\<close>

definition player_info_command :: "env \<Rightarrow> int \<Rightarrow> string list \<Rightarrow> bot \<Rightarrow> result" where
  "player_info_command env user_id args st =
     (if \<not> is_admin env user_id then (None, [], st)
      else case args of
        [] \<Rightarrow> (None, [Reply_text ''Usage: /playerinfo <user_id>'' None], st)
      | target_user_id # rest \<Rightarrow>
          (let player_data = get_player_state (Str_id target_user_id) (players_json st);
               info_text = json_dumps env player_data
           in (None, [Reply_text (''<code>'' @ info_text @ ''</code>'') None], st)))"

definition give_money_command :: "env \<Rightarrow> int \<Rightarrow> string list \<Rightarrow> bot \<Rightarrow> result" where
  "give_money_command env user_id args st =
     (if \<not> is_admin env user_id then (None, [], st)
      else case args of
        [target_user_id, amount_arg] \<Rightarrow>
          (case int_of_str env amount_arg of
             None \<Rightarrow> (None, [Reply_text ''Usage: /givemoney <user_id> <amount>'' None], st)
           | Some amount \<Rightarrow>
               (let players = load_player_data (players_json st);
                    target_user_id_str = py_str (Str_id target_user_id)
                in case players target_user_id_str of
                     None \<Rightarrow>
                       (None,
                        [Reply_text (''Player '' @ target_user_id @ '' not found.'') None], st)
                   | Some p \<Rightarrow>
                       (let p = p\<lparr>currency := currency p + amount\<rparr>;
                            players = players(target_user_id_str \<mapsto> p)
                        in (None,
                            [Reply_text (''Gave '' @ str_int amount @ '' CC to player ''
                               @ target_user_id @ ''. New balance: '' @ str_int (currency p)
                               @ ''.'') None],
                            st\<lparr>players_json := save_player_data players\<rparr>))))
      | _ \<Rightarrow> (None, [Reply_text ''Usage: /givemoney <user_id> <amount>'' None], st))"

text \<open>\<open>', '.join(keys)\<close>\<close>

fun join_comma :: "string list \<Rightarrow> string" where
  "join_comma [] = []"
| "join_comma [x] = x"
| "join_comma (x # y # ys) = x @ '', '' @ join_comma (y # ys)"

definition teleport_command :: "env \<Rightarrow> int \<Rightarrow> string list \<Rightarrow> bot \<Rightarrow> result" where
  "teleport_command env user_id args st =
     (if \<not> is_admin env user_id then (None, [], st)
      else case args of
        [target_user_id, location_key] \<Rightarrow>
          if GAME_MAP location_key = None then
            (None,
             [Reply_text (''Invalid location key. Valid keys: ''
                @ join_comma (map fst GAME_MAP_items)) None], st)
          else
            (let players = load_player_data (players_json st);
                 target_user_id_str = py_str (Str_id target_user_id)
             in case players target_user_id_str of
                  None \<Rightarrow>
                    (None, [Reply_text (''Player '' @ target_user_id @ '' not found.'') None], st)
                | Some p \<Rightarrow>
                    (None,
                     [Reply_text (''Teleported player '' @ target_user_id @ '' to ''
                        @ location_key @ ''.'') None],
                     st\<lparr>players_json :=
                          save_player_data
                            (players(target_user_id_str \<mapsto> p\<lparr>location := location_key\<rparr>))\<rparr>))
      | _ \<Rightarrow> (None, [Reply_text ''Usage: /teleport <user_id> <location_key>'' None], st))"










section \<open>Runs of the bot\<close>





text \<open>Whether the record stored under a key is that of a created character.\<close>

definition has_character :: "bot \<Rightarrow> string \<Rightarrow> bool" where
  "has_character st k =
     (case load_player_data (players_json st) k of
        None \<Rightarrow> False
      | Some p \<Rightarrow> character_created p)"

section \<open>An environment for running the handlers on examples\<close>

text \<open>
  The English locale as \<open>main\<close> writes it, a formatter that fills plain named fields
  \<open>{key}\<close> of a template, the reader of decimal numerals, and a one-line rendering of a
  record where \<open>json.dumps\<close> is called. Letters are changed in case within ASCII, an
  exception is shown by its class name, and the entries of a collection are listed for the
  keys \<open>0\<close> to \<open>99\<close>, in that order.
\<close>

definition en_locale_items :: "(string \<times> string) list" where
  "en_locale_items =
     [(''voice_prompt'',
        ''To ensure the quality of our community, you must be approved by an admin. Please send a voice message stating your character name and age.''),
      (''approval_pending'',
        ''Your request has been sent for approval. Please wait for an admin to review it. You will be notified.''),
      (''approval_success'',
        [CHR 0xE2, CHR 0x9C, CHR 0x85] @
        '' You have been approved! Welcome to Crimson City. Let'' @ [CHR 0x27] @
        ''s create your character.''),
      (''voice_already_submitted'',
        ''You have already submitted a voice message for approval.''),
      (''welcome_back'',
        ''Welcome back, {name}. The city awaits.''),
      (''language_set'',
        ''Language set to English.''),
      (''character_creation_name'',
        ''The city doesn'' @ [CHR 0x27] @ ''t know you yet. What name will you be known by?''),
      (''character_creation_profession'',
        ''And what is your trade? How did you make your way in this world?''),
      (''prof_hustler'',
        ''Street Hustler''),
      (''prof_intellectual'',
        ''Intellectual''),
      (''prof_charmer'',
        ''Charmer''),
      (''character_creation_complete'',
        ''Very well, {name}. Your story in Crimson City begins now.''),
      (''main_menu_prompt'',
        ''What'' @ [CHR 0x27] @ ''s your next move?''),
      (''menu_look'',
        [CHR 0xF0, CHR 0x9F, CHR 0x94, CHR 0x8E] @ '' Look Around''),
      (''menu_move'',
        [CHR 0xF0, CHR 0x9F, CHR 0x97, CHR 0xBA, CHR 0xEF, CHR 0xB8, CHR 0x8F] @ '' Move''),
      (''menu_profile'',
        [CHR 0xF0, CHR 0x9F, CHR 0x91, CHR 0xA4] @ '' Profile''),
      (''menu_language'',
        [CHR 0xF0, CHR 0x9F, CHR 0x8C, CHR 0x90] @ '' Language''),
      (''menu_inventory'',
        [CHR 0xF0, CHR 0x9F, CHR 0x8E, CHR 0x92] @ '' Inventory''),
      (''profile_view'',
        [CHR 0xF0, CHR 0x9F, CHR 0x91, CHR 0xA4] @ '' *Profile*'' @ [CHR 0x0A, CHR 0x0A] @
        ''*Name:* {name}'' @ [CHR 0x0A] @ ''*Profession:* {profession}'' @ [CHR 0x0A] @
        ''*VIP Status:* {vip_status}'' @ [CHR 0x0A, CHR 0x0A] @ ''*Currency:* {currency} CC'' @
        [CHR 0x0A, CHR 0x0A] @ ''*Stats:*'' @ [CHR 0x0A] @ ''- Charm: {charm}'' @ [CHR 0x0A] @
        ''- Intellect: {intellect}'' @ [CHR 0x0A] @ ''- Street Smarts: {street_smarts}''),
      (''move_prompt'',
        ''Where do you want to go?''),
      (''move_success'',
        ''You arrive at {location}.''),
      (''back_button'',
        ''Back''),
      (''places_in_district'',
        ''You see a few places of interest:''),
      (''npcs_in_area'',
        ''People here:''),
      (''talk_to'',
        ''Talk to''),
      (''god_presence'',
        ''You feel an overwhelming presence. The God of this City is here.''),
      (''inventory_empty'',
        ''Your pockets are empty.''),
      (''vip_status_yes'',
        ''Yes''),
      (''vip_status_no'',
        ''No''),
      (''broadcast_header'',
        ''A message echoes through the city:''),
      (''whisper_header'',
        ''A voice whispers directly into your mind:'')]"

fun render :: "py_val \<Rightarrow> string" where
  "render (Str_val s) = s"
| "render (Int_val i) = str_int i"
| "render None_val = ''None''"

fun fill_fields :: "string option \<Rightarrow> string \<Rightarrow> (string \<times> py_val) list \<Rightarrow> exc + string" where
  "fill_fields None [] kwargs = Inr []"
| "fill_fields None (c # cs) kwargs =
     (if c = CHR ''{'' then fill_fields (Some []) cs kwargs
      else if c = CHR ''}'' then Inl ValueError
      else and_then (fill_fields None cs kwargs) (\<lambda>r. Inr (c # r)))"
| "fill_fields (Some acc) [] kwargs = Inl ValueError"
| "fill_fields (Some acc) (c # cs) kwargs =
     (if c = CHR ''}'' then
        (case map_of kwargs (rev acc) of
           None \<Rightarrow> Inl KeyError
         | Some v \<Rightarrow> and_then (fill_fields None cs kwargs) (\<lambda>r. Inr (render v @ r)))
      else fill_fields (Some (c # acc)) cs kwargs)"

definition one_line :: "player \<Rightarrow> string" where
  "one_line p =
     ''lang='' @ lang p @ '' location='' @ location p @ '' currency='' @ str_int (currency p)"

definition ascii_lower :: "char \<Rightarrow> char" where
  "ascii_lower c =
     (let n = (of_char c :: nat) in if 65 \<le> n \<and> n \<le> 90 then char_of (n + 32) else c)"

definition ascii_upper :: "char \<Rightarrow> char" where
  "ascii_upper c =
     (let n = (of_char c :: nat) in if 97 \<le> n \<and> n \<le> 122 then char_of (n - 32) else c)"

fun class_name :: "exc \<Rightarrow> string" where
  "class_name KeyError = ''KeyError''"
| "class_name ValueError = ''ValueError''"
| "class_name IndexError = ''IndexError''"
| "class_name AttributeError = ''AttributeError''"
| "class_name TypeError = ''TypeError''"

definition small_keys :: "(string \<rightharpoonup> player) \<Rightarrow> (string \<times> player) list" where
  "small_keys players =
     concat (map (\<lambda>i. case players (str_nat i) of None \<Rightarrow> [] | Some p \<Rightarrow> [(str_nat i, p)])
               [0 ..< 100])"

definition demo_env :: env where
  "demo_env =
     \<lparr> ADMIN_USER_ID = 123456789,
       locales = [''en'' \<mapsto> map_of en_locale_items],
       str_format = fill_fields None,
       int_of_str = ascii_int,
       json_dumps = one_line,
       lower = map ascii_lower,
       upper = map ascii_upper,
       str_exc = class_name,
       items = small_keys \<rparr>"

definition no_steps :: "int \<Rightarrow> string option" where
  "no_steps = (\<lambda>u. None)"

text \<open>The state after the body of \<open>button_handler\<close> has run \<open>n\<close> times for one user and one button.\<close>

definition after_presses :: "env \<Rightarrow> int \<Rightarrow> string \<Rightarrow> nat \<Rightarrow> bot \<Rightarrow> bot" where
  "after_presses env user_id data n st =
     ((\<lambda>s. snd (snd (button_actions env user_id data s))) ^^ n) st"

section \<open>Facts about the string functions\<close>

lemma of_char_digit_char: "d < 10 \<Longrightarrow> (of_char (digit_char d) :: nat) = 48 + d"
  by (simp add: digit_char_def)

lemma is_digit_digit_char: "d < 10 \<Longrightarrow> is_digit (digit_char d)"
  by (simp add: is_digit_def of_char_digit_char)

lemma digit_val_digit_char: "d < 10 \<Longrightarrow> digit_val (digit_char d) = d"
  by (simp add: digit_val_def of_char_digit_char)

lemma parse_digits_append:
  "parse_digits acc (xs @ ys) =
     (case parse_digits acc xs of None \<Rightarrow> None | Some a \<Rightarrow> parse_digits a ys)"
  by (induction xs arbitrary: acc) auto

lemma parse_digits_str_nat: "parse_digits 0 (str_nat n) = Some n"
proof (induction n rule: str_nat.induct)
  case (1 n)
  show ?case
  proof (cases "n < 10")
    case True
    then have "str_nat n = [digit_char n]"
      by (subst str_nat.simps) simp
    with True show ?thesis
      by (simp add: is_digit_digit_char digit_val_digit_char)
  next
    case False
    have d: "n mod 10 < 10" by simp
    from False have "parse_digits 0 (str_nat n) =
        parse_digits 0 (str_nat (n div 10) @ [digit_char (n mod 10)])"
      by (subst str_nat.simps) simp
    also have "\<dots> = parse_digits (n div 10) [digit_char (n mod 10)]"
      using 1 False by (simp add: parse_digits_append)
    also have "\<dots> = Some (10 * (n div 10) + n mod 10)"
      using d by (simp add: is_digit_digit_char digit_val_digit_char)
    finally show ?thesis by simp
  qed
qed

lemma str_nat_digits: "c \<in> set (str_nat n) \<Longrightarrow> is_digit c"
proof (induction n rule: str_nat.induct)
  case (1 n)
  show ?case
  proof (cases "n < 10")
    case True
    then have "str_nat n = [digit_char n]"
      by (subst str_nat.simps) simp
    with True 1(2) show ?thesis by (simp add: is_digit_digit_char)
  next
    case False
    have d: "n mod 10 < 10" by simp
    from False have "str_nat n = str_nat (n div 10) @ [digit_char (n mod 10)]"
      by (subst str_nat.simps) simp
    with 1(2) have "c \<in> set (str_nat (n div 10)) \<or> c = digit_char (n mod 10)"
      by auto
    then show ?thesis
      using 1(1) False d by (auto simp: is_digit_digit_char)
  qed
qed

lemma str_nat_nonempty: "str_nat n \<noteq> []"
  by (subst str_nat.simps) simp

lemma not_digit_signs:
  "\<not> is_digit CHR ''-''" "\<not> is_digit CHR ''+''" "\<not> is_digit CHR ''_''"
  by (simp_all add: is_digit_def)

lemma hd_str_nat_digit: "str_nat n = c # cs \<Longrightarrow> is_digit c"
  using str_nat_digits [of c n] by simp

lemma ascii_int_str_int: "ascii_int (str_int i) = Some i"
proof (cases "i < 0")
  case True
  then show ?thesis
    by (simp add: ascii_int_def str_int_def str_nat_nonempty parse_digits_str_nat)
next
  case False
  obtain c cs where s: "str_nat (nat i) = c # cs"
    using str_nat_nonempty [of "nat i"] by (cases "str_nat (nat i)") auto
  have "is_digit c" using hd_str_nat_digit [OF s] .
  then have "c \<noteq> CHR ''-''" "c \<noteq> CHR ''+''"
    using not_digit_signs by auto
  moreover have "parse_digits 0 (c # cs) = Some (nat i)"
    using parse_digits_str_nat [of "nat i"] s by simp
  ultimately show ?thesis
    using False s by (simp add: ascii_int_def str_int_def del: parse_digits.simps)
qed

lemma str_int_inj: "str_int i = str_int j \<Longrightarrow> i = j"
proof -
  assume "str_int i = str_int j"
  then have "ascii_int (str_int i) = ascii_int (str_int j)" by simp
  then show "i = j" by (simp add: ascii_int_str_int)
qed

lemma underscore_not_in_str_int: "CHR ''_'' \<notin> set (str_int i)"
  using str_nat_digits [of "CHR ''_''"] not_digit_signs
  by (auto simp: str_int_def)

section \<open>The store: a write touches one key\<close>

text \<open>
  C5. Writing the record of player \<open>p\<close> (load the collection, set key \<open>str(p)\<close>, save)
  leaves the record of every other player id \<open>q \<noteq> p\<close> in the saved collection equal to
  its value in the loaded collection \<open>m\<close>, whole and unaltered; the record under \<open>str(p)\<close>
  is the one written.
\<close>

theorem update_player_state_frame:
  assumes "q \<noteq> p"
  shows "load_player_data (update_player_state (Int_id p) s (Json m)) (py_str (Int_id q))
           = m (py_str (Int_id q))
       \<and> load_player_data (update_player_state (Int_id p) s (Json m)) (py_str (Int_id p))
           = Some s"
proof -
  from assms have "str_int q \<noteq> str_int p"
    using str_int_inj by blast
  then show ?thesis
    by (simp add: update_player_state_def load_player_data_def save_player_data_def)
qed

theorem update_player_state_frame_witness:
  "load_player_data
     (update_player_state (Int_id 7) (default_player\<lparr>currency := 5\<rparr>)
        (Json [''42'' \<mapsto> default_player\<lparr>is_vip := True\<rparr>])) (py_str (Int_id 42))
     = Some (default_player\<lparr>is_vip := True\<rparr>)"
proof -
  have ne: "(42::int) \<noteq> 7" by simp
  have k: "str_int 42 = ''42''"
    by code_simp
  show ?thesis
    using update_player_state_frame [OF ne, of "default_player\<lparr>currency := 5\<rparr>"
        "[''42'' \<mapsto> default_player\<lparr>is_vip := True\<rparr>]"]
    by (simp add: k)
qed

section \<open>Sequencing\<close>

lemma and_then_simps [simp]:
  "and_then (Inl e) k = Inl e" "and_then (Inr x) k = k x"
  by (simp_all add: and_then_def)

lemma finish_simps [simp]:
  "finish (Inl e) st = (Some e, [], st)" "finish (Inr os) st = (None, os, st)"
  by (simp_all add: finish_def)

lemma emit_simp [simp]: "emit os (e, os', st) = (e, os @ os', st)"
  by (simp add: emit_def)

lemma and_next_simps [simp]:
  "and_next (Some e, os, st) k = (Some e, os, st)"
  "and_next (None, os, st) k = emit os (k st)"
  by (simp_all add: and_next_def)

lemma state_of_finish [simp]: "snd (snd (finish r st)) = st"
  by (cases r) simp_all

lemma state_of_emit [simp]: "snd (snd (emit os r)) = snd (snd r)"
  by (cases r) simp

lemma exc_of_emit [simp]: "fst (emit os r) = fst r"
  by (cases r) simp

section \<open>Admin commands: give-money and player-info\<close>

text \<open>
  C9. For an existing record \<open>p\<close> and an amount argument that \<open>int\<close> reads as \<open>amount\<close>,
  negative or not, the admin's give-money command stores \<open>currency p + amount\<close>, in exact
  integer arithmetic, with the rest of the record and the other records untouched; there
  is no lower bound, so an amount below \<open>- currency p\<close> leaves a negative balance.
\<close>

theorem give_money_adds:
  assumes "is_admin env user_id"
      and "int_of_str env amount_arg = Some amount"
      and "load_player_data (players_json st) target = Some p"
  shows "give_money_command env user_id [target, amount_arg] st =
           (None,
            [Reply_text (''Gave '' @ str_int amount @ '' CC to player '' @ target
               @ ''. New balance: '' @ str_int (currency p + amount) @ ''.'') None],
            st\<lparr>players_json :=
                 Json ((load_player_data (players_json st))
                         (target \<mapsto> p\<lparr>currency := currency p + amount\<rparr>))\<rparr>)
       \<and> (amount < - currency p \<longrightarrow> currency (p\<lparr>currency := currency p + amount\<rparr>) < 0)"
  using assms by (simp add: give_money_command_def save_player_data_def Let_def)

theorem give_money_adds_witness:
  "load_player_data
     (players_json (snd (snd (give_money_command demo_env 123456789 [''5'', ''-50'']
        \<lparr>players_json = Json [''5'' \<mapsto> default_player], next_step = no_steps\<rparr>)))) ''5''
   = Some (default_player\<lparr>currency := 50\<rparr>)
   \<and> currency default_player = 100"
proof -
  have a: "is_admin demo_env 123456789"
    by (simp add: is_admin_def demo_env_def)
  have b: "int_of_str demo_env ''-50'' = Some (- 50)"
    by (simp add: demo_env_def ascii_int_def is_digit_def digit_val_def)
  have c: "load_player_data
     (players_json \<lparr>players_json = Json [''5'' \<mapsto> default_player], next_step = no_steps\<rparr>) ''5''
       = Some default_player"
    by (simp add: load_player_data_def)
  show ?thesis
    using give_money_adds [OF a b c]
    by (simp add: load_player_data_def default_player_def)
qed

text \<open>
  C4, as the code has it. For an id without a record, the admin's player-info query replies
  with the default record and leaves the state as it was: the store gets no entry.
\<close>

theorem player_info_unknown_id:
  assumes "is_admin env user_id"
      and "load_player_data (players_json st) target = None"
  shows "player_info_command env user_id (target # rest) st =
           (None, [Reply_text (''<code>'' @ json_dumps env default_player @ ''</code>'') None], st)"
  using assms by (simp add: player_info_command_def get_player_state_def Let_def)

theorem player_info_unknown_id_witness:
  "player_info_command demo_env 123456789 [''42'']
     \<lparr>players_json = No_file, next_step = no_steps\<rparr> =
   (None, [Reply_text (''<code>'' @ json_dumps demo_env default_player @ ''</code>'') None],
    \<lparr>players_json = No_file, next_step = no_steps\<rparr>)"
proof -
  have a: "is_admin demo_env 123456789"
    by (simp add: is_admin_def demo_env_def)
  have b: "load_player_data
     (players_json \<lparr>players_json = No_file, next_step = no_steps\<rparr>) ''42'' = None"
    by (simp add: load_player_data_def)
  show ?thesis
    using player_info_unknown_id [OF a b, of "[]"] by simp
qed

text \<open>After a player-info query for the unknown id 42 the store still has no entry for 42.\<close>

theorem player_info_creates_no_record:
  "load_player_data
     (players_json (snd (snd (player_info_command demo_env 123456789 [''42'']
        \<lparr>players_json = Json Map.empty, next_step = no_steps\<rparr>)))) ''42'' = None"
  by (simp add: player_info_command_def is_admin_def demo_env_def get_player_state_def
      load_player_data_def Let_def)

section \<open>Voice submission\<close>

lemma update_then_get [simp]:
  "get_player_state uid (update_player_state uid p f) = p"
  by (simp add: get_player_state_def update_player_state_def load_player_data_def
      save_player_data_def)

lemma voice_handler_state:
  "snd (snd (voice_handler env u fn fid st)) =
     (let ps = get_player_state (Int_id u) (players_json st)
      in if approved ps \<or> pending_approval ps then st
         else st\<lparr>players_json :=
                  update_player_state (Int_id u)
                    (ps\<lparr>pending_approval := True, voice_file_id := Some fid\<rparr>)
                    (players_json st)\<rparr>)"
  by (simp add: voice_handler_def Let_def)

text \<open>
  C6. For a player who is approved or pending approval, a further voice submission leaves
  the whole state as it is, so \<open>voice_file_id\<close> keeps its value and no flag changes. A first
  submission stores the file id and sets the pending flag, and a second submission after
  it changes nothing: twice is the same as once.
\<close>

theorem voice_resubmission:
  "(approved (get_player_state (Int_id u) (players_json st))
      \<or> pending_approval (get_player_state (Int_id u) (players_json st))
    \<longrightarrow> snd (snd (voice_handler env u fn fid st)) = st)
   \<and> (\<not> approved (get_player_state (Int_id u) (players_json st))
      \<and> \<not> pending_approval (get_player_state (Int_id u) (players_json st))
    \<longrightarrow> get_player_state (Int_id u)
          (players_json (snd (snd (voice_handler env u fn1 fid1 st))))
        = (get_player_state (Int_id u) (players_json st))
            \<lparr>pending_approval := True, voice_file_id := Some fid1\<rparr>)
   \<and> snd (snd (voice_handler env u fn2 fid2 (snd (snd (voice_handler env u fn1 fid1 st)))))
       = snd (snd (voice_handler env u fn1 fid1 st))"
  by (simp add: voice_handler_state Let_def)

theorem voice_resubmission_witness:
  "snd (snd (voice_handler demo_env 9 ''Ann'' ''f2''
       \<lparr>players_json = Json [''9'' \<mapsto> default_player\<lparr>pending_approval := True,
                                     voice_file_id := Some ''f1''\<rparr>],
         next_step = no_steps\<rparr>))
   = \<lparr>players_json = Json [''9'' \<mapsto> default_player\<lparr>pending_approval := True,
                                     voice_file_id := Some ''f1''\<rparr>],
       next_step = no_steps\<rparr>"
proof -
  have k: "str_int 9 = ''9''" by code_simp
  have p: "pending_approval (get_player_state (Int_id 9)
       (players_json \<lparr>players_json = Json [''9'' \<mapsto> default_player\<lparr>pending_approval := True,
                                     voice_file_id := Some ''f1''\<rparr>],
         next_step = no_steps\<rparr>))"
    by (simp add: get_player_state_def load_player_data_def k)
  show ?thesis
    using voice_resubmission [of 9 "\<lparr>players_json = Json [''9'' \<mapsto> default_player\<lparr>pending_approval := True,
                                     voice_file_id := Some ''f1''\<rparr>],
         next_step = no_steps\<rparr>" demo_env "''Ann''" "''f2''"] p
    by blast
qed

section \<open>Behind the read of the user id\<close>

text \<open>
  The sections from here to the one on looking around are about \<open>button_actions\<close>, the
  blocks of the button handler behind the statement that reads the user id. They say what
  each block does when it runs for a user \<open>u\<close>. The handler as it stands does not run them;
  what it does is the subject of the section on the button handler as it runs.
\<close>

subsection \<open>Dispatch on the callback data\<close>

lemma startswith_iff: "startswith s p \<longleftrightarrow> (\<exists>r. s = p @ r)"
  by (induction s p rule: startswith.induct) auto

lemma split_on_no_sep: "c \<notin> set s \<Longrightarrow> split_on c s = [s]"
  by (induction s) auto

lemma split_on_nonempty: "split_on c s \<noteq> []"
  by (induction s) (auto split: list.splits)

lemma state_of_and_next:
  "snd (snd (and_next r k)) =
     (case fst r of Some e \<Rightarrow> snd (snd r) | None \<Rightarrow> snd (snd (k (snd (snd r)))))"
  by (cases r) (auto simp: and_next_def split: option.splits)

lemma split_reject: "split_on CHR ''_'' (''reject_'' @ str_int u) = [''reject'', str_int u]"
  using split_on_no_sep [OF underscore_not_in_str_int, of u] by simp

lemma split_approve: "split_on CHR ''_'' (''approve_'' @ str_int u) = [''approve'', str_int u]"
  using split_on_no_sep [OF underscore_not_in_str_int, of u] by simp

subsection \<open>Rejecting a player\<close>

text \<open>
  The reject block, run for the admin and the data of the reject button issued for
  player \<open>u\<close>, whose record is stored and pending approval: the record is removed from the
  collection; the next
  load-or-default lookup for \<open>u\<close> gives the default record (language en, not approved, not
  pending, location downtown, all stats 1, currency 100) and nothing of the rejected one.
\<close>

lemma reject_purges_record:
  assumes "is_admin env admin"
      and "int_of_str env (str_int u) = Some u"
      and "load_player_data (players_json st) (str_int u) = Some p"
      and "pending_approval p"
  shows "button_actions env admin (''reject_'' @ str_int u) st =
           (None,
            [Edit_message_reply_markup,
             Send_message (Int_id (ADMIN_USER_ID env))
               (''User '' @ str_int u @ '' rejected and data deleted.'') None],
            st\<lparr>players_json := Json ((load_player_data (players_json st))(str_int u := None))\<rparr>)
       \<and> load_player_data
            (players_json (snd (snd (button_actions env admin (''reject_'' @ str_int u) st))))
            (str_int u) = None
       \<and> get_player_state (Int_id u)
            (players_json (snd (snd (button_actions env admin (''reject_'' @ str_int u) st))))
           = \<lparr> lang = ''en'', approved = False, pending_approval = False, voice_file_id = None,
               character_created = False, name = None, profession = None,
               location = ''downtown'', inventory = [],
               stats = \<lparr> charm = 1, intellect = 1, street_smarts = 1 \<rparr>,
               currency = 100, is_vip = False \<rparr>"
proof -
  have r: "button_actions env admin (''reject_'' @ str_int u) st =
           (None,
            [Edit_message_reply_markup,
             Send_message (Int_id (ADMIN_USER_ID env))
               (''User '' @ str_int u @ '' rejected and data deleted.'') None],
            st\<lparr>players_json := Json ((load_player_data (players_json st))(str_int u := None))\<rparr>)"
    using assms(1-3) split_reject [of u]
    by (simp add: button_actions_def admin_approval_def save_player_data_def
        Let_def del: split_on.simps)
  show ?thesis
    unfolding r
    by (simp add: load_player_data_def get_player_state_def default_player_def)
qed

subsection \<open>Movement and talk\<close>

lemma not_menu_move_to:
  assumes "startswith data ''move_to_''"
  shows "\<not> startswith data ''approve_''" "\<not> startswith data ''reject_''"
    "\<not> startswith data ''set_lang_''" "\<not> startswith data ''set_prof_''"
    "\<not> startswith data ''talk_''"
    "main_menu_actions env u data ps lg st = (None, [], st)"
proof -
  from assms obtain r where r: "data = ''move_to_'' @ r"
    by (auto simp: startswith_iff)
  show "\<not> startswith data ''approve_''" "\<not> startswith data ''reject_''"
    "\<not> startswith data ''set_lang_''" "\<not> startswith data ''set_prof_''"
    "\<not> startswith data ''talk_''"
    by (simp_all add: r)
  show "main_menu_actions env u data ps lg st = (None, [], st)"
    by (simp add: main_menu_actions_def r)
qed

lemma button_move_to:
  assumes "startswith data ''move_to_''"
  shows "button_actions env u data st =
           move_to env u data (get_player_state (Int_id u) (players_json st))
                (lang (get_player_state (Int_id u) (players_json st))) st"
proof -
  obtain e os s where m: "move_to env u data (get_player_state (Int_id u) (players_json st))
                (lang (get_player_state (Int_id u) (players_json st))) st = (e, os, s)"
    by (cases "move_to env u data (get_player_state (Int_id u) (players_json st))
                (lang (get_player_state (Int_id u) (players_json st))) st") auto
  show ?thesis
    using assms not_menu_move_to [OF assms] 
    by (cases e) (simp_all add: button_actions_def Let_def m)
qed

lemma show_main_menu_lang:
  "lang (get_player_state (Int_id u) f) = lang (get_player_state (Int_id u) f')
     \<Longrightarrow> show_main_menu env c u f = show_main_menu env c u f'"
  by (simp add: show_main_menu_def Let_def)

lemma move_to_unknown:
  assumes "startswith data ''move_to_''"
      and "GAME_MAP (remove_all ''move_to_'' data) = None"
  shows "button_actions env u data st =
           (Some KeyError, [],
            st\<lparr>players_json :=
                 update_player_state (Int_id u)
                   ((get_player_state (Int_id u) (players_json st))
                      \<lparr>location := remove_all ''move_to_'' data\<rparr>)
                   (players_json st)\<rparr>)"
  using assms(2)
  by (simp add: button_move_to [OF assms(1)] move_to_def getitem_def Let_def)

lemma talk_unknown:
  assumes "startswith data ''talk_''"
      and "NPCS (remove_all ''talk_'' data) = None"
  shows "button_actions env u data st = (Some KeyError, [], st)"
proof -
  from assms(1) obtain r where r: "data = ''talk_'' @ r"
    by (auto simp: startswith_iff)
  have "main_menu_actions env u data ps lg st = (None, [], st)" for ps lg
    by (simp add: main_menu_actions_def r)
  then show ?thesis
    using assms(2)
    by (simp add: button_actions_def Let_def talk_def getitem_def r)
qed

lemma teleport_unknown_location:
  "GAME_MAP location_key = None \<Longrightarrow>
     snd (snd (teleport_command env u [target, location_key] st)) = st"
  by (simp add: teleport_command_def)

text \<open>
  The move block does not look at the connections. For every destination that is a
  location of the world, whether or not it is a connection of the player's current
  location, the block completes and stores the destination as the player's location.
\<close>

lemma move_to_any_location:
  assumes "startswith data ''move_to_''"
      and "get_player_state (Int_id u) (players_json st) = ps"
      and "GAME_MAP (remove_all ''move_to_'' data) = Some d"
      and "name_of (lang ps) d = Some destination_name"
      and "get_text env ''move_success'' (lang ps) [(''location'', Str_val destination_name)]
             = Inr t"
      and "show_main_menu env True u (players_json st) = Inr menu"
  shows "button_actions env u data st =
           (None, [Edit_message_text t None] @ menu,
            st\<lparr>players_json :=
                 update_player_state (Int_id u)
                   (ps\<lparr>location := remove_all ''move_to_'' data\<rparr>) (players_json st)\<rparr>)"
proof -
  have "show_main_menu env True u
          (update_player_state (Int_id u)
             (ps\<lparr>location := remove_all ''move_to_'' data\<rparr>) (players_json st)) = Inr menu"
    using show_main_menu_lang [of u
        "update_player_state (Int_id u)
             (ps\<lparr>location := remove_all ''move_to_'' data\<rparr>) (players_json st)"
        "players_json st" env True] assms(2,6)
    by simp
  then show ?thesis
    using assms(2-5)
    by (simp add: button_move_to [OF assms(1)] move_to_def getitem_def present_def Let_def)
qed

subsection \<open>Movement on concrete inputs\<close>

lemma demo_admin: "is_admin demo_env 123456789"
  by (simp add: is_admin_def demo_env_def)

lemma demo_int: "int_of_str demo_env (str_int i) = Some i"
  by (simp add: demo_env_def ascii_int_str_int)

lemma demo_move_success:
  "get_text demo_env ''move_success'' ''en'' [(''location'', Str_val ''The Plaza'')]
     = Inr ''You arrive at The Plaza.''"
  by (simp add: get_text_def demo_env_def en_locale_items_def)

lemma demo_menu_en:
  "lang (get_player_state (Int_id u) f) = ''en'' \<Longrightarrow>
     \<exists>menu. show_main_menu demo_env c u f = Inr menu"
  by (simp add: show_main_menu_def get_text_def demo_env_def en_locale_items_def Let_def)

lemma GAME_MAP_plaza:
  "\<exists>d. GAME_MAP ''the_plaza'' = Some d \<and> name_of ''en'' d = Some ''The Plaza''"
  by (simp add: GAME_MAP_def GAME_MAP_items_def name_of_def)

lemma neon_connections:
  "map_option connections (GAME_MAP ''neon_district'') = Some [''downtown'']"
  by (simp add: GAME_MAP_def GAME_MAP_items_def)

lemma str_int_5: "str_int 5 = ''5''"
  by code_simp

text \<open>
  The body run for a player at the Neon District, whose only connection is Downtown, and
  the data \<open>move_to_the_plaza\<close>: it ends without an exception and the stored location is
  The Plaza.
\<close>

lemma move_to_non_adjacent:
  "map_option connections (GAME_MAP ''neon_district'') = Some [''downtown'']
   \<and> fst (button_actions demo_env 5 ''move_to_the_plaza''
          \<lparr>players_json = Json [''5'' \<mapsto> default_player\<lparr>character_created := True,
                                       location := ''neon_district''\<rparr>],
            next_step = no_steps\<rparr>) = None
   \<and> map_option location
        (load_player_data (players_json (snd (snd
          (button_actions demo_env 5 ''move_to_the_plaza''
             \<lparr>players_json = Json [''5'' \<mapsto> default_player\<lparr>character_created := True,
                                          location := ''neon_district''\<rparr>],
               next_step = no_steps\<rparr>)))) ''5'')
      = Some ''the_plaza''"
proof -
  let ?p = "default_player\<lparr>character_created := True, location := ''neon_district''\<rparr>"
  let ?st = "\<lparr>players_json = Json [''5'' \<mapsto> ?p], next_step = no_steps\<rparr>"
  have g: "get_player_state (Int_id 5) (players_json ?st) = ?p"
    by (simp add: get_player_state_def load_player_data_def str_int_5)
  have l: "lang ?p = ''en''"
    by (simp add: default_player_def)
  obtain menu where menu: "show_main_menu demo_env True 5 (players_json ?st) = Inr menu"
    using demo_menu_en [of 5 "players_json ?st" True] g l by auto
  have b: "button_actions demo_env 5 ''move_to_the_plaza'' ?st =
       move_to demo_env 5 ''move_to_the_plaza'' ?p ''en'' ?st"
    using button_move_to [of "''move_to_the_plaza''" demo_env 5 ?st] g l by simp
  have m: "show_main_menu demo_env True 5
       (update_player_state (Int_id 5) (?p\<lparr>location := ''the_plaza''\<rparr>) (players_json ?st))
         = Inr menu"
    using show_main_menu_lang [of 5
        "update_player_state (Int_id 5) (?p\<lparr>location := ''the_plaza''\<rparr>) (players_json ?st)"
        "players_json ?st" demo_env True] g menu
    by simp
  obtain d where d: "GAME_MAP ''the_plaza'' = Some d" "name_of ''en'' d = Some ''The Plaza''"
    using GAME_MAP_plaza by auto
  have r: "button_actions demo_env 5 ''move_to_the_plaza'' ?st =
      (None, [Edit_message_text ''You arrive at The Plaza.'' None] @ menu,
       ?st\<lparr>players_json :=
            update_player_state (Int_id 5) (?p\<lparr>location := ''the_plaza''\<rparr>) (players_json ?st)\<rparr>)"
    using d m demo_move_success
    by (simp add: b move_to_def getitem_def present_def Let_def)
  show ?thesis
    unfolding r using neon_connections
    by (simp add: update_player_state_def load_player_data_def save_player_data_def str_int_5)
qed

lemma move_to_any_location_witness:
  "\<exists>menu. button_actions demo_env 5 ''move_to_the_plaza''
       \<lparr>players_json = Json [''5'' \<mapsto> default_player\<lparr>location := ''industrial_zone''\<rparr>],
         next_step = no_steps\<rparr>
     = (None, [Edit_message_text ''You arrive at The Plaza.'' None] @ menu,
        \<lparr>players_json = Json [''5'' \<mapsto> default_player\<lparr>location := ''the_plaza''\<rparr>],
          next_step = no_steps\<rparr>)"
proof -
  let ?p = "default_player\<lparr>location := ''industrial_zone''\<rparr>"
  let ?st = "\<lparr>players_json = Json [''5'' \<mapsto> ?p], next_step = no_steps\<rparr>"
  have s: "startswith ''move_to_the_plaza'' ''move_to_''" by simp
  have g: "get_player_state (Int_id 5) (players_json ?st) = ?p"
    by (simp add: get_player_state_def load_player_data_def str_int_5)
  have l: "lang ?p = ''en''"
    by (simp add: default_player_def)
  obtain menu where menu: "show_main_menu demo_env True 5 (players_json ?st) = Inr menu"
    using demo_menu_en [of 5 "players_json ?st" True] g l by auto
  obtain d where d: "GAME_MAP (remove_all ''move_to_'' ''move_to_the_plaza'') = Some d"
      "name_of (lang ?p) d = Some ''The Plaza''"
    using GAME_MAP_plaza l by auto
  have t: "get_text demo_env ''move_success'' (lang ?p) [(''location'', Str_val ''The Plaza'')]
             = Inr ''You arrive at The Plaza.''"
    using demo_move_success l by simp
  have "button_actions demo_env 5 ''move_to_the_plaza'' ?st
     = (None, [Edit_message_text ''You arrive at The Plaza.'' None] @ menu,
        \<lparr>players_json = Json [''5'' \<mapsto> default_player\<lparr>location := ''the_plaza''\<rparr>],
          next_step = no_steps\<rparr>)"
    using move_to_any_location [OF s g d t menu]
    by (simp add: update_player_state_def load_player_data_def save_player_data_def str_int_5)
  then show ?thesis by blast
qed

text \<open>
  The move block writes before it looks the destination up. Run for a player at
  Downtown and the data \<open>move_to_atlantis\<close>, where \<open>atlantis\<close> is no location of the world,
  the body ends with a \<open>KeyError\<close>, and the stored record has the location \<open>atlantis\<close>.
\<close>

lemma move_to_unresolved_mutates:
  "button_actions demo_env 5 ''move_to_atlantis''
     \<lparr>players_json = Json [''5'' \<mapsto> default_player], next_step = no_steps\<rparr>
   = (Some KeyError, [],
      \<lparr>players_json = Json [''5'' \<mapsto> default_player\<lparr>location := ''atlantis''\<rparr>],
        next_step = no_steps\<rparr>)"
proof -
  have s: "startswith ''move_to_atlantis'' ''move_to_''" by simp
  have n: "GAME_MAP (remove_all ''move_to_'' ''move_to_atlantis'') = None"
    by (simp add: GAME_MAP_def GAME_MAP_items_def)
  show ?thesis
    using move_to_unknown [OF s n, of demo_env 5
        "\<lparr>players_json = Json [''5'' \<mapsto> default_player], next_step = no_steps\<rparr>"]
    by (simp add: update_player_state_def load_player_data_def save_player_data_def
        get_player_state_def str_int_5)
qed

lemma reject_purges_record_witness:
  "get_player_state (Int_id 9)
     (players_json (snd (snd (button_actions demo_env 123456789 ''reject_9''
        \<lparr>players_json = Json [''9'' \<mapsto> default_player\<lparr>lang := ''fa'',
                                     pending_approval := True, voice_file_id := Some ''f1''\<rparr>],
          next_step = no_steps\<rparr>))))
   = default_player"
proof -
  let ?p = "default_player\<lparr>lang := ''fa'', pending_approval := True,
              voice_file_id := Some ''f1''\<rparr>"
  let ?st = "\<lparr>players_json = Json [''9'' \<mapsto> ?p], next_step = no_steps\<rparr>"
  have k: "str_int 9 = ''9''" by code_simp
  have l: "load_player_data (players_json ?st) (str_int 9) = Some ?p"
    by (simp add: load_player_data_def k)
  have p: "pending_approval ?p" by simp
  show ?thesis
    using reject_purges_record [OF demo_admin demo_int l p, THEN conjunct2, THEN conjunct2]
    by (simp add: k default_player_def)
qed

subsection \<open>Choosing a profession\<close>

lemma set_prof_state:
  "snd (snd (set_prof env u data ps lg st)) =
     st\<lparr>players_json :=
          update_player_state (Int_id u)
            (let prof = last (split_on CHR ''_'' data);
                 p1 = ps\<lparr>profession := Some prof\<rparr>;
                 p2 = (if prof = ''hustler'' then
                         p1\<lparr>stats := (stats p1)\<lparr>street_smarts := street_smarts (stats p1) + 2\<rparr>\<rparr>
                       else if prof = ''intellectual'' then
                         p1\<lparr>stats := (stats p1)\<lparr>intellect := intellect (stats p1) + 2\<rparr>\<rparr>
                       else if prof = ''charmer'' then
                         p1\<lparr>stats := (stats p1)\<lparr>charm := charm (stats p1) + 2\<rparr>\<rparr>
                       else p1)
             in p2\<lparr>character_created := True\<rparr>)
            (players_json st)\<rparr>"
  by (simp add: set_prof_def Let_def split: sum.splits)

lemma button_set_prof:
  assumes "startswith data ''set_prof_''"
  shows "button_actions env u data st =
           set_prof env u data (get_player_state (Int_id u) (players_json st))
                (lang (get_player_state (Int_id u) (players_json st))) st"
proof -
  from assms obtain r where r: "data = ''set_prof_'' @ r"
    by (auto simp: startswith_iff)
  show ?thesis
    by (simp add: button_actions_def Let_def r del: split_on.simps)
qed

lemma press_hustler:
  "get_player_state (Int_id u)
     (players_json (snd (snd (button_actions env u ''set_prof_hustler'' st)))) =
   (get_player_state (Int_id u) (players_json st))
     \<lparr>profession := Some ''hustler'',
      stats := (stats (get_player_state (Int_id u) (players_json st)))
        \<lparr>street_smarts := street_smarts (stats (get_player_state (Int_id u) (players_json st))) + 2\<rparr>,
      character_created := True\<rparr>"
  by (simp add: button_set_prof set_prof_state)

lemma press_intellectual:
  "get_player_state (Int_id u)
     (players_json (snd (snd (button_actions env u ''set_prof_intellectual'' st)))) =
   (get_player_state (Int_id u) (players_json st))
     \<lparr>profession := Some ''intellectual'',
      stats := (stats (get_player_state (Int_id u) (players_json st)))
        \<lparr>intellect := intellect (stats (get_player_state (Int_id u) (players_json st))) + 2\<rparr>,
      character_created := True\<rparr>"
  by (simp add: button_set_prof set_prof_state)

lemma press_charmer:
  "get_player_state (Int_id u)
     (players_json (snd (snd (button_actions env u ''set_prof_charmer'' st)))) =
   (get_player_state (Int_id u) (players_json st))
     \<lparr>profession := Some ''charmer'',
      stats := (stats (get_player_state (Int_id u) (players_json st)))
        \<lparr>charm := charm (stats (get_player_state (Int_id u) (players_json st))) + 2\<rparr>,
      character_created := True\<rparr>"
  by (simp add: button_set_prof set_prof_state)

lemma after_presses_Suc:
  "after_presses env u data (Suc n) st =
     snd (snd (button_actions env u data (after_presses env u data n st)))"
  by (simp add: after_presses_def)

lemma after_presses_0: "after_presses env u data 0 st = st"
  by (simp add: after_presses_def)

lemma hustler_presses:
  "get_player_state (Int_id u) (players_json (after_presses env u ''set_prof_hustler'' (Suc n) st)) =
   (get_player_state (Int_id u) (players_json st))
     \<lparr>profession := Some ''hustler'',
      stats := (stats (get_player_state (Int_id u) (players_json st)))
        \<lparr>street_smarts := street_smarts (stats (get_player_state (Int_id u) (players_json st)))
           + 2 * (1 + int n)\<rparr>,
      character_created := True\<rparr>"
proof (induction n)
  case 0
  show ?case
    by (simp add: after_presses_Suc after_presses_0 press_hustler)
next
  case (Suc n)
  show ?case
    apply (subst after_presses_Suc)
    apply (subst press_hustler)
    apply (simp only: Suc)
    apply (simp add: algebra_simps)
    done
qed

lemma intellectual_presses:
  "get_player_state (Int_id u)
     (players_json (after_presses env u ''set_prof_intellectual'' (Suc n) st)) =
   (get_player_state (Int_id u) (players_json st))
     \<lparr>profession := Some ''intellectual'',
      stats := (stats (get_player_state (Int_id u) (players_json st)))
        \<lparr>intellect := intellect (stats (get_player_state (Int_id u) (players_json st)))
           + 2 * (1 + int n)\<rparr>,
      character_created := True\<rparr>"
proof (induction n)
  case 0
  show ?case
    by (simp add: after_presses_Suc after_presses_0 press_intellectual)
next
  case (Suc n)
  show ?case
    apply (subst after_presses_Suc)
    apply (subst press_intellectual)
    apply (simp only: Suc)
    apply (simp add: algebra_simps)
    done
qed

lemma charmer_presses:
  "get_player_state (Int_id u) (players_json (after_presses env u ''set_prof_charmer'' (Suc n) st)) =
   (get_player_state (Int_id u) (players_json st))
     \<lparr>profession := Some ''charmer'',
      stats := (stats (get_player_state (Int_id u) (players_json st)))
        \<lparr>charm := charm (stats (get_player_state (Int_id u) (players_json st)))
           + 2 * (1 + int n)\<rparr>,
      character_created := True\<rparr>"
proof (induction n)
  case 0
  show ?case
    by (simp add: after_presses_Suc after_presses_0 press_charmer)
next
  case (Suc n)
  show ?case
    apply (subst after_presses_Suc)
    apply (subst press_charmer)
    apply (simp only: Suc)
    apply (simp add: algebra_simps)
    done
qed


subsection \<open>From first contact to a character\<close>

lemma approve_effect:
  assumes "is_admin env a" and "int_of_str env (str_int u) = Some u"
  shows "players_json (snd (snd (button_actions env a (''approve_'' @ str_int u) st))) =
           update_player_state (Int_id u)
             ((get_player_state (Int_id u) (players_json st))
                \<lparr>approved := True, pending_approval := False\<rparr>) (players_json st)"
    and "v \<noteq> a \<Longrightarrow>
           next_step (snd (snd (button_actions env a (''approve_'' @ str_int u) st))) v
             = next_step st v"
  using assms split_approve [of u]
  by (simp_all add: button_actions_def admin_approval_def character_creation_prompt_def Let_def
      split: sum.splits del: split_on.simps)

lemma start_effect:
  assumes "approved (get_player_state (Int_id u) (players_json st))"
      and "\<not> character_created (get_player_state (Int_id u) (players_json st))"
  shows "snd (snd (start_command env u st)) =
           st\<lparr>next_step := (next_step st)(u := Some ''create_character_name'')\<rparr>"
  using assms by (simp add: start_command_def character_creation_prompt_def Let_def)

lemma message_effect:
  assumes "approved (get_player_state (Int_id u) (players_json st))"
      and "next_step st u = Some ''create_character_name''"
  shows "players_json (snd (snd (message_handler env u text st))) =
           update_player_state (Int_id u)
             ((get_player_state (Int_id u) (players_json st))\<lparr>name := Some text\<rparr>)
             (players_json st)"
  using assms by (simp add: message_handler_def Let_def split: sum.splits)

text \<open>
  The profession block is not guarded: each run sets the profession, marks the character
  as created and adds 2 to the stat of that profession. For a player whose name is set
  and whose stats have their initial value 1, after \<open>n \<ge> 1\<close> runs for one profession
  button the character is created, name and profession are set, and the stat is
  \<open>1 + 2 n\<close>.
\<close>

lemma profession_delta_per_press:
  assumes "get_player_state (Int_id u) (players_json st) = ps"
      and "name ps = Some nm"
      and "stats ps = \<lparr>charm = 1, intellect = 1, street_smarts = 1\<rparr>"
      and "0 < n"
  shows "get_player_state (Int_id u)
           (players_json (after_presses env u ''set_prof_hustler'' n st)) =
         ps\<lparr>profession := Some ''hustler'',
            stats := \<lparr>charm = 1, intellect = 1, street_smarts = 1 + 2 * int n\<rparr>,
            character_created := True\<rparr>
       \<and> get_player_state (Int_id u)
           (players_json (after_presses env u ''set_prof_intellectual'' n st)) =
         ps\<lparr>profession := Some ''intellectual'',
            stats := \<lparr>charm = 1, intellect = 1 + 2 * int n, street_smarts = 1\<rparr>,
            character_created := True\<rparr>
       \<and> get_player_state (Int_id u)
           (players_json (after_presses env u ''set_prof_charmer'' n st)) =
         ps\<lparr>profession := Some ''charmer'',
            stats := \<lparr>charm = 1 + 2 * int n, intellect = 1, street_smarts = 1\<rparr>,
            character_created := True\<rparr>
       \<and> name (get_player_state (Int_id u)
           (players_json (after_presses env u ''set_prof_hustler'' n st))) = Some nm"
proof -
  from assms(4) obtain m where n: "n = Suc m"
    by (cases n) auto
  have h: "get_player_state (Int_id u)
           (players_json (after_presses env u ''set_prof_hustler'' n st)) =
         ps\<lparr>profession := Some ''hustler'',
            stats := \<lparr>charm = 1, intellect = 1, street_smarts = 1 + 2 * int n\<rparr>,
            character_created := True\<rparr>"
    unfolding n hustler_presses using assms(1,3) by simp
  have i: "get_player_state (Int_id u)
           (players_json (after_presses env u ''set_prof_intellectual'' n st)) =
         ps\<lparr>profession := Some ''intellectual'',
            stats := \<lparr>charm = 1, intellect = 1 + 2 * int n, street_smarts = 1\<rparr>,
            character_created := True\<rparr>"
    unfolding n intellectual_presses using assms(1,3) by simp
  have c: "get_player_state (Int_id u)
           (players_json (after_presses env u ''set_prof_charmer'' n st)) =
         ps\<lparr>profession := Some ''charmer'',
            stats := \<lparr>charm = 1 + 2 * int n, intellect = 1, street_smarts = 1\<rparr>,
            character_created := True\<rparr>"
    unfolding n charmer_presses using assms(1,3) by simp
  show ?thesis
    using h i c assms(2) by simp
qed

lemma profession_delta_per_press_witness:
  "get_player_state (Int_id 5)
     (players_json (after_presses demo_env 5 ''set_prof_charmer'' 1
        \<lparr>players_json = Json [''5'' \<mapsto> default_player\<lparr>approved := True, name := Some ''Ann''\<rparr>],
          next_step = no_steps\<rparr>))
   = default_player\<lparr>approved := True, name := Some ''Ann'', profession := Some ''charmer'',
        stats := \<lparr>charm = 3, intellect = 1, street_smarts = 1\<rparr>, character_created := True\<rparr>"
proof -
  let ?p = "default_player\<lparr>approved := True, name := Some ''Ann''\<rparr>"
  let ?st = "\<lparr>players_json = Json [''5'' \<mapsto> ?p], next_step = no_steps\<rparr>"
  have g: "get_player_state (Int_id 5) (players_json ?st) = ?p"
    by (simp add: get_player_state_def load_player_data_def str_int_5)
  have nm: "name ?p = Some ''Ann''" by simp
  have s: "stats ?p = \<lparr>charm = 1, intellect = 1, street_smarts = 1\<rparr>"
    by (simp add: default_player_def)
  have n: "0 < (1::nat)" by simp
  show ?thesis
    using profession_delta_per_press [OF g nm s n, of demo_env] by simp
qed

text \<open>
  With the body in the place of the button handler, a player goes from first contact to a
  character (voice message, the approve block, \<open>/start\<close>, the name), and the profession
  block run twice for the hustler button leaves street smarts at 5.
\<close>

lemma profession_pressed_twice:
  "get_player_state (Int_id 5)
     (players_json
        (after_presses demo_env 5 ''set_prof_hustler'' 2
           (snd (snd (message_handler demo_env 5 ''Ann''
              (snd (snd (start_command demo_env 5
                 (snd (snd (button_actions demo_env 123456789 ''approve_5''
                    (snd (snd (voice_handler demo_env 5 ''Ann Lee'' ''f1''
                       \<lparr>players_json = No_file, next_step = no_steps\<rparr>))))))))))))))
   = default_player\<lparr>approved := True, voice_file_id := Some ''f1'', name := Some ''Ann'',
        profession := Some ''hustler'',
        stats := \<lparr>charm = 1, intellect = 1, street_smarts = 5\<rparr>,
        character_created := True\<rparr>"
proof -
  let ?s0 = "\<lparr>players_json = No_file, next_step = no_steps\<rparr>"
  let ?p1 = "default_player\<lparr>pending_approval := True, voice_file_id := Some ''f1''\<rparr>"
  let ?s1 = "\<lparr>players_json = Json [''5'' \<mapsto> ?p1], next_step = no_steps\<rparr>"
  let ?p2 = "default_player\<lparr>approved := True, voice_file_id := Some ''f1''\<rparr>"
  let ?p4 = "default_player\<lparr>approved := True, voice_file_id := Some ''f1'', name := Some ''Ann''\<rparr>"
  define s2 where "s2 = snd (snd (button_actions demo_env 123456789 ''approve_5'' ?s1))"
  define s3 where "s3 = snd (snd (start_command demo_env 5 s2))"
  define s4 where "s4 = snd (snd (message_handler demo_env 5 ''Ann'' s3))"
  have v: "snd (snd (voice_handler demo_env 5 ''Ann Lee'' ''f1'' ?s0)) = ?s1"
    by (simp add: voice_handler_state get_player_state_def load_player_data_def
        update_player_state_def save_player_data_def str_int_5 default_player_def)
  have a: "players_json s2 = Json [''5'' \<mapsto> ?p2]" "next_step s2 5 = None"
    using approve_effect(1) [where env = demo_env and a = 123456789 and u = 5 and st = ?s1,
        OF demo_admin demo_int]
      approve_effect(2) [where env = demo_env and a = 123456789 and u = 5 and st = ?s1
        and v = 5, OF demo_admin demo_int]
    by (simp_all add: s2_def str_int_5 get_player_state_def load_player_data_def
        update_player_state_def save_player_data_def default_player_def no_steps_def)
  have g2: "get_player_state (Int_id 5) (players_json s2) = ?p2"
    by (simp add: a get_player_state_def load_player_data_def str_int_5)
  have s: "s3 = s2\<lparr>next_step := (next_step s2)(5 := Some ''create_character_name'')\<rparr>"
    unfolding s3_def by (rule start_effect) (simp_all add: g2 default_player_def)
  have g3: "get_player_state (Int_id 5) (players_json s3) = ?p2"
    by (simp add: s g2)
  have m: "players_json s4 = Json [''5'' \<mapsto> ?p4]"
    unfolding s4_def
    by (subst message_effect)
      (simp_all add: s a default_player_def update_player_state_def load_player_data_def
        get_player_state_def save_player_data_def str_int_5)
  have g4: "get_player_state (Int_id 5) (players_json s4) = ?p4"
    by (simp add: m get_player_state_def load_player_data_def str_int_5)
  have two: "(2::nat) = Suc 1" by simp
  have "get_player_state (Int_id 5)
          (players_json (after_presses demo_env 5 ''set_prof_hustler'' 2 s4)) =
        default_player\<lparr>approved := True, voice_file_id := Some ''f1'', name := Some ''Ann'',
          profession := Some ''hustler'',
          stats := \<lparr>charm = 1, intellect = 1, street_smarts = 5\<rparr>,
          character_created := True\<rparr>"
    unfolding two hustler_presses g4 by (simp add: default_player_def)
  then show ?thesis
    by (simp only: v s2_def [symmetric] s3_def [symmetric] s4_def [symmetric])
qed

subsection \<open>Looking around\<close>

lemma places_loop_lines:
  assumes "lg = ''en'' \<or> lg = ''fa''"
      and "\<forall>k\<in>set ks. LOCATIONS k \<noteq> None"
  shows "places_loop lg ps ks acc =
           Inr (acc @ concat (map (\<lambda>k. nl @ ''- '' @ the (name_of lg (the (LOCATIONS k))))
                  (filter (\<lambda>k. is_vip ps \<or> requires_vip (the (LOCATIONS k)) \<noteq> Some True) ks)))"
  using assms(2)
proof (induction ks arbitrary: acc)
  case Nil
  show ?case by simp
next
  case (Cons k ks)
  from Cons.prems obtain l where l: "LOCATIONS k = Some l"
    by auto
  from assms(1) obtain n where n: "name_of lg l = Some n"
    by (auto simp: name_of_def)
  have rest: "\<forall>k\<in>set ks. LOCATIONS k \<noteq> None"
    using Cons.prems by simp
  show ?case
  proof (cases "requires_vip l = Some True \<and> \<not> is_vip ps")
    case True
    then show ?thesis
      using l Cons.IH [OF rest] by simp
  next
    case False
    then have "\<not> ((case requires_vip l of None \<Rightarrow> False | Some b \<Rightarrow> b) \<and> \<not> is_vip ps)"
      by (auto split: option.splits)
    then show ?thesis
      using l n False Cons.IH [OF rest] by auto
  qed
qed

lemma district_places_resolve:
  "GAME_MAP k = Some d \<Longrightarrow> \<forall>x\<in>set (locations d). LOCATIONS x \<noteq> None"
  by (auto simp: GAME_MAP_def GAME_MAP_items_def LOCATIONS_def LOCATIONS_items_def
      split: if_splits)

lemma district_not_place: "GAME_MAP k = Some d \<Longrightarrow> LOCATIONS k = None"
  by (auto simp: GAME_MAP_def GAME_MAP_items_def LOCATIONS_def LOCATIONS_items_def
      split: if_splits)

lemma button_main_look:
  "button_actions env u ''main_look'' st =
     (case main_look env u (get_player_state (Int_id u) (players_json st))
             (lang (get_player_state (Int_id u) (players_json st))) (players_json st) of
        Inl e \<Rightarrow> (Some e, [], st)
      | Inr os \<Rightarrow> (None, os, st))"
  by (simp add: button_actions_def main_menu_actions_def Let_def split: sum.splits)

lemma main_look_result:
  assumes "GAME_MAP (location ps) = Some d"
      and "lg = ''en'' \<or> lg = ''fa''"
      and "get_text env ''back_button'' lg [] = Inr b"
      and "get_text env ''places_in_district'' lg [] = Inr p"
      and "get_text env ''god_presence'' lg [] = Inr g"
  shows "main_look env u ps lg f =
     Inr [Edit_message_text
            (pin @ ''*'' @ the (name_of lg d) @ ''*'' @ nl @ nl @ the (description_of lg d)
             @ (if location (get_player_state (Int_id (ADMIN_USER_ID env)) f) = location ps
                   \<and> \<not> is_admin env u
                then nl @ nl @ ''_'' @ g @ ''_'' else [])
             @ (if locations d \<noteq> [] then nl @ nl @ p @ '':'' else [])
             @ concat (map (\<lambda>k. nl @ ''- '' @ the (name_of lg (the (LOCATIONS k))))
                 (filter (\<lambda>k. is_vip ps \<or> requires_vip (the (LOCATIONS k)) \<noteq> Some True)
                    (locations d))))
            (Some [[(laquo @ b, ''main_back'')]])]"
proof -
  obtain nm ds where nd: "name_of lg d = Some nm" "description_of lg d = Some ds"
    using assms(2) by (auto simp: name_of_def description_of_def)
  note pl = places_loop_lines [OF assms(2) district_places_resolve [OF assms(1)]]
  show ?thesis
    using assms(1,3,4,5) nd district_not_place [OF assms(1)]
    by (simp add: main_look_def getitem_def present_def Let_def pl)
qed

lemma get_own_record:
  "get_player_state (Int_id u) (Json (m(str_int u \<mapsto> p))) = p"
  by (simp add: get_player_state_def load_player_data_def)

lemma get_other_record:
  "a \<noteq> u \<Longrightarrow>
     get_player_state (Int_id a) (Json (m(str_int u \<mapsto> p))) = get_player_state (Int_id a) (Json m)"
  using str_int_inj [of a u]
  by (auto simp: get_player_state_def load_player_data_def)

text \<open>
  The Look block on two states that differ only in the \<open>is_vip\<close> flag of the viewer's
  record, the viewer at any district \<open>d\<close> of the world: the output is the same text \<open>t\<close>
  and keyboard,
  followed by one line per place of the district. For the viewer who is not VIP the
  places flagged \<open>requires_vip\<close> have no line; for the VIP viewer every place has its
  line; a place without the flag has its line for both.
\<close>

lemma look_vip_places:
  assumes "GAME_MAP (location ps) = Some d"
      and "lang ps = ''en'' \<or> lang ps = ''fa''"
      and "get_text env ''back_button'' (lang ps) [] = Inr b"
      and "get_text env ''places_in_district'' (lang ps) [] = Inr p"
      and "get_text env ''god_presence'' (lang ps) [] = Inr g"
  shows "\<exists>t kb.
           button_actions env u ''main_look''
             \<lparr>players_json = Json (m(str_int u \<mapsto> ps\<lparr>is_vip := False\<rparr>)), next_step = ns\<rparr>
           = (None,
              [
               Edit_message_text
                 (t @ concat (map (\<lambda>k. nl @ ''- '' @ the (name_of (lang ps) (the (LOCATIONS k))))
                        (filter (\<lambda>k. requires_vip (the (LOCATIONS k)) \<noteq> Some True)
                           (locations d)))) kb],
              \<lparr>players_json = Json (m(str_int u \<mapsto> ps\<lparr>is_vip := False\<rparr>)), next_step = ns\<rparr>)
         \<and> button_actions env u ''main_look''
             \<lparr>players_json = Json (m(str_int u \<mapsto> ps\<lparr>is_vip := True\<rparr>)), next_step = ns\<rparr>
           = (None,
              [
               Edit_message_text
                 (t @ concat (map (\<lambda>k. nl @ ''- '' @ the (name_of (lang ps) (the (LOCATIONS k))))
                        (locations d))) kb],
              \<lparr>players_json = Json (m(str_int u \<mapsto> ps\<lparr>is_vip := True\<rparr>)), next_step = ns\<rparr>)
         \<and> (\<forall>k\<in>set (locations d). \<exists>l n. LOCATIONS k = Some l \<and> name_of (lang ps) l = Some n)"
proof -
  let ?f = "\<lambda>v. Json (m(str_int u \<mapsto> ps\<lparr>is_vip := v\<rparr>))"
  let ?adm = "\<lambda>v. location (get_player_state (Int_id (ADMIN_USER_ID env)) (?f v)) = location ps
                 \<and> \<not> is_admin env u"
  have adm: "?adm True = ?adm False"
  proof (cases "u = ADMIN_USER_ID env")
    case True
    then show ?thesis by (simp add: is_admin_def)
  next
    case False
    then have "ADMIN_USER_ID env \<noteq> u" by simp
    then show ?thesis by (simp add: get_other_record)
  qed
  define t where "t = pin @ ''*'' @ the (name_of (lang ps) d) @ ''*'' @ nl @ nl
                        @ the (description_of (lang ps) d)
                        @ (if ?adm False then nl @ nl @ ''_'' @ g @ ''_'' else [])
                        @ (if locations d \<noteq> [] then nl @ nl @ p @ '':'' else [])"
  have look: "main_look env u (ps\<lparr>is_vip := v\<rparr>) (lang ps) (?f v) =
      Inr [Edit_message_text
             (t @ concat (map (\<lambda>k. nl @ ''- '' @ the (name_of (lang ps) (the (LOCATIONS k))))
                 (filter (\<lambda>k. v \<or> requires_vip (the (LOCATIONS k)) \<noteq> Some True) (locations d))))
             (Some [[(laquo @ b, ''main_back'')]])]" for v
  proof -
    have d: "GAME_MAP (location (ps\<lparr>is_vip := v\<rparr>)) = Some d"
      using assms(1) by simp
    have "?adm v = ?adm False"
      using adm by (cases v) simp_all
    then show ?thesis
      unfolding main_look_result [OF d assms(2,3,4,5)] t_def by simp
  qed
  have res: "\<forall>k\<in>set (locations d). \<exists>l n. LOCATIONS k = Some l \<and> name_of (lang ps) l = Some n"
    using district_places_resolve [OF assms(1)] assms(2)
    by (auto simp: name_of_def)
  show ?thesis
    using look [of True] look [of False] res
    by (intro exI [of _ t] exI [of _ "Some [[(laquo @ b, ''main_back'')]]"])
      (simp add: button_main_look get_own_record)
qed

text \<open>
  The Look block reads the admin's state by load-or-default. When the admin has no
  record, the lookup gives the default record, located at Downtown, and the block run for
  a viewer other than the admin at Downtown gives the header of Downtown followed by the
  line of the god's presence, then the rest of the output.
\<close>

lemma look_presence_of_absent_admin:
  assumes "load_player_data (players_json st) (str_int (ADMIN_USER_ID env)) = None"
      and "u \<noteq> ADMIN_USER_ID env"
      and "get_player_state (Int_id u) (players_json st) = ps"
      and "location ps = ''downtown''"
      and "lang ps = ''en'' \<or> lang ps = ''fa''"
      and "get_text env ''back_button'' (lang ps) [] = Inr b"
      and "get_text env ''places_in_district'' (lang ps) [] = Inr p"
      and "get_text env ''god_presence'' (lang ps) [] = Inr g"
  shows "\<exists>rest.
           button_actions env u ''main_look'' st =
             (None,
              [
               Edit_message_text
                 (pin @ ''*'' @ (if lang ps = ''en'' then ''Downtown'' else downtown_name_fa) @ ''*''
                  @ nl @ nl
                  @ (if lang ps = ''en'' then downtown_description_en else downtown_description_fa)
                  @ nl @ nl @ ''_'' @ g @ ''_'' @ rest)
                 (Some [[(laquo @ b, ''main_back'')]])],
              st)"
proof -
  obtain d where d: "GAME_MAP (location ps) = Some d"
      and nm: "name_of (lang ps) d = Some (if lang ps = ''en'' then ''Downtown'' else downtown_name_fa)"
      and ds: "description_of (lang ps) d =
                 Some (if lang ps = ''en'' then downtown_description_en else downtown_description_fa)"
    using assms(4,5)
    by (auto simp: GAME_MAP_def GAME_MAP_items_def name_of_def description_of_def)
  have adm: "location (get_player_state (Int_id (ADMIN_USER_ID env)) (players_json st)) = location ps"
    using assms(1,4) by (simp add: get_player_state_def default_player_def)
  have na: "\<not> is_admin env u"
    using assms(2) by (simp add: is_admin_def)
  show ?thesis
    using adm na nm ds
    by (simp add: button_main_look assms(3) main_look_result [OF d assms(5,6,7,8)])
qed

subsection \<open>Looking around on concrete inputs\<close>

lemma demo_look_texts:
  "get_text demo_env ''back_button'' ''en'' [] = Inr ''Back''"
  "get_text demo_env ''places_in_district'' ''en'' [] = Inr ''You see a few places of interest:''"
  "get_text demo_env ''god_presence'' ''en'' [] =
     Inr ''You feel an overwhelming presence. The God of this City is here.''"
  by (simp_all add: get_text_def demo_env_def en_locale_items_def)

lemma downtown_places:
  "\<exists>d. GAME_MAP ''downtown'' = Some d \<and> locations d = [''the_onyx_bar'', ''vip_lounge'']"
  by (simp add: GAME_MAP_def GAME_MAP_items_def)

lemma place_lines:
  "the (name_of ''en'' (the (LOCATIONS ''the_onyx_bar''))) = ''The Onyx Bar''"
  "the (name_of ''en'' (the (LOCATIONS ''vip_lounge''))) = ''The VIP Lounge''"
  "requires_vip (the (LOCATIONS ''the_onyx_bar'')) = None"
  "requires_vip (the (LOCATIONS ''vip_lounge'')) = Some True"
  by (simp_all add: LOCATIONS_def LOCATIONS_items_def name_of_def)

lemma look_vip_places_witness:
  "\<exists>t kb.
     button_actions demo_env 5 ''main_look''
       \<lparr>players_json = Json [''5'' \<mapsto> default_player\<lparr>is_vip := False\<rparr>], next_step = no_steps\<rparr>
     = (None, [Edit_message_text (t @ nl @ ''- The Onyx Bar'') kb],
        \<lparr>players_json = Json [''5'' \<mapsto> default_player\<lparr>is_vip := False\<rparr>], next_step = no_steps\<rparr>)
   \<and> button_actions demo_env 5 ''main_look''
       \<lparr>players_json = Json [''5'' \<mapsto> default_player\<lparr>is_vip := True\<rparr>], next_step = no_steps\<rparr>
     = (None,
        [Edit_message_text (t @ nl @ ''- The Onyx Bar'' @ nl @ ''- The VIP Lounge'') kb],
        \<lparr>players_json = Json [''5'' \<mapsto> default_player\<lparr>is_vip := True\<rparr>], next_step = no_steps\<rparr>)"
proof -
  have loc: "location default_player = ''downtown''" and lg: "lang default_player = ''en''"
    by (simp_all add: default_player_def)
  obtain d where d: "GAME_MAP (location default_player) = Some d"
      and ls: "locations d = [''the_onyx_bar'', ''vip_lounge'']"
    using downtown_places loc by auto
  have l: "lang default_player = ''en'' \<or> lang default_player = ''fa''"
    using lg by simp
  have b: "get_text demo_env ''back_button'' (lang default_player) [] = Inr ''Back''"
    and p: "get_text demo_env ''places_in_district'' (lang default_player) [] =
              Inr ''You see a few places of interest:''"
    and g: "get_text demo_env ''god_presence'' (lang default_player) [] =
              Inr ''You feel an overwhelming presence. The God of this City is here.''"
    using demo_look_texts lg by simp_all
  from look_vip_places [OF d l b p g, of 5 Map.empty no_steps]
  obtain t kb where
    r: "button_actions demo_env 5 ''main_look''
          \<lparr>players_json = Json [''5'' \<mapsto> default_player\<lparr>is_vip := False\<rparr>], next_step = no_steps\<rparr>
        = (None, [Edit_message_text (t @ nl @ ''- The Onyx Bar'') kb],
           \<lparr>players_json = Json [''5'' \<mapsto> default_player\<lparr>is_vip := False\<rparr>], next_step = no_steps\<rparr>)"
       "button_actions demo_env 5 ''main_look''
          \<lparr>players_json = Json [''5'' \<mapsto> default_player\<lparr>is_vip := True\<rparr>], next_step = no_steps\<rparr>
        = (None,
           [Edit_message_text (t @ nl @ ''- The Onyx Bar'' @ nl @ ''- The VIP Lounge'') kb],
           \<lparr>players_json = Json [''5'' \<mapsto> default_player\<lparr>is_vip := True\<rparr>], next_step = no_steps\<rparr>)"
    by (simp add: ls lg place_lines str_int_5) blast
  show ?thesis
    using r by blast
qed

text \<open>
  The administrator has never written to the bot: the store holds the record of player 5 only.
\<close>

lemma admin_key_absent:
  "load_player_data (Json [''5'' \<mapsto> default_player]) (str_int (ADMIN_USER_ID demo_env)) = None"
proof -
  have "str_int 123456789 \<noteq> str_int 5"
    using str_int_inj [of 123456789 5] by auto
  then show ?thesis
    by (simp add: load_player_data_def demo_env_def str_int_5)
qed

lemma look_presence_of_absent_admin_witness:
  "\<exists>rest.
     button_actions demo_env 5 ''main_look''
       \<lparr>players_json = Json [''5'' \<mapsto> default_player], next_step = no_steps\<rparr>
     = (None,
        [
         Edit_message_text
           (pin @ ''*Downtown*'' @ nl @ nl @ downtown_description_en @ nl @ nl
            @ ''_You feel an overwhelming presence. The God of this City is here._'' @ rest)
           (Some [[(laquo @ ''Back'', ''main_back'')]])],
        \<lparr>players_json = Json [''5'' \<mapsto> default_player], next_step = no_steps\<rparr>)"
proof -
  let ?st = "\<lparr>players_json = Json [''5'' \<mapsto> default_player], next_step = no_steps\<rparr>"
  have a: "load_player_data (players_json ?st) (str_int (ADMIN_USER_ID demo_env)) = None"
    using admin_key_absent by simp
  have u: "5 \<noteq> ADMIN_USER_ID demo_env"
    by (simp add: demo_env_def)
  have s: "get_player_state (Int_id 5) (players_json ?st) = default_player"
    by (simp add: get_player_state_def load_player_data_def str_int_5)
  have loc: "location default_player = ''downtown''" and lg: "lang default_player = ''en''"
    by (simp_all add: default_player_def)
  have l: "lang default_player = ''en'' \<or> lang default_player = ''fa''"
    using lg by simp
  have b: "get_text demo_env ''back_button'' (lang default_player) [] = Inr ''Back''"
    and p: "get_text demo_env ''places_in_district'' (lang default_player) [] =
              Inr ''You see a few places of interest:''"
    and g: "get_text demo_env ''god_presence'' (lang default_player) [] =
              Inr ''You feel an overwhelming presence. The God of this City is here.''"
    using demo_look_texts lg by simp_all
  from look_presence_of_absent_admin [OF a u s loc l b p g]
  obtain rest where
    r: "button_actions demo_env 5 ''main_look'' ?st
        = (None,
           [
            Edit_message_text
              (pin @ ''*'' @ ''Downtown'' @ ''*'' @ nl @ nl @ downtown_description_en @ nl @ nl
               @ ''_'' @ ''You feel an overwhelming presence. The God of this City is here.''
               @ ''_'' @ rest)
              (Some [[(laquo @ ''Back'', ''main_back'')]])],
           ?st)"
    by (auto simp: lg)
  show ?thesis
    using r by (intro exI [of _ rest]) simp
qed

section \<open>The button handler as it runs\<close>

text \<open>
  Every button press ends the same way: the query is answered, the read of
  \<open>query.effective_user\<close> raises \<open>AttributeError\<close>, and none of the blocks of the handler
  runs. Nothing is written and nothing but the answer is sent.
\<close>

lemma button_handler_raises:
  "button_handler env query st = (Some AttributeError, [Answer], st)"
  by (simp add: button_handler_def effective_user_def)

lemma button_press_keeps_records:
  "get_player_state v (players_json (snd (snd (button_handler env query st)))) =
     get_player_state v (players_json st)"
  by (simp add: button_handler_raises)

text \<open>
  C1. A press of the button \<open>move_to_X\<close> never completes, whatever \<open>X\<close> is, so it completes
  only for connections of the current location; and for every \<open>X\<close>, a connection or not,
  the state is left as it was: the location of every player, the presser \<open>u\<close> included,
  is the same before and after the press.
\<close>

theorem move_to_leaves_location:
  "button_handler env \<lparr>from_user = u, callback_data = ''move_to_'' @ x\<rparr> st =
     (Some AttributeError, [Answer], st)
   \<and> fst (button_handler env \<lparr>from_user = u, callback_data = ''move_to_'' @ x\<rparr> st) \<noteq> None
   \<and> location (get_player_state (Int_id v)
         (players_json
            (snd (snd (button_handler env \<lparr>from_user = u, callback_data = ''move_to_'' @ x\<rparr>
                         st))))) =
     location (get_player_state (Int_id v) (players_json st))"
  by (simp add: button_handler_raises)

text \<open>
  C2. Three actions name an id of the world: the button \<open>move_to_X\<close> (a district), the
  button \<open>talk_N\<close> (a character) and the admin command \<open>/teleport id X\<close> (a district). When
  the id is no key of the table it is looked up in, each of them leaves the state, and so
  every stored record, as it was. The teleport command checks the key before it loads the
  collection; the two buttons do not get as far as the lookup.
\<close>

theorem unresolved_id_no_mutation:
  assumes "GAME_MAP x = None"
      and "NPCS n = None"
  shows "snd (snd (button_handler env \<lparr>from_user = u, callback_data = ''move_to_'' @ x\<rparr> st))
           = st
       \<and> snd (snd (button_handler env \<lparr>from_user = u, callback_data = ''talk_'' @ n\<rparr> st)) = st
       \<and> snd (snd (teleport_command env a [target, x] st)) = st"
  using assms
  by (simp add: button_handler_raises teleport_command_def)

theorem unresolved_id_no_mutation_witness:
  "GAME_MAP ''atlantis'' = None \<and> NPCS ''nobody'' = None
   \<and> snd (snd (button_handler demo_env \<lparr>from_user = 5, callback_data = ''move_to_atlantis''\<rparr>
                  \<lparr>players_json = Json [''5'' \<mapsto> default_player], next_step = no_steps\<rparr>))
     = \<lparr>players_json = Json [''5'' \<mapsto> default_player], next_step = no_steps\<rparr>
   \<and> snd (snd (button_handler demo_env \<lparr>from_user = 5, callback_data = ''talk_nobody''\<rparr>
                  \<lparr>players_json = Json [''5'' \<mapsto> default_player], next_step = no_steps\<rparr>))
     = \<lparr>players_json = Json [''5'' \<mapsto> default_player], next_step = no_steps\<rparr>
   \<and> snd (snd (teleport_command demo_env 123456789 [''5'', ''atlantis'']
                  \<lparr>players_json = Json [''5'' \<mapsto> default_player], next_step = no_steps\<rparr>))
     = \<lparr>players_json = Json [''5'' \<mapsto> default_player], next_step = no_steps\<rparr>"
proof -
  have g: "GAME_MAP ''atlantis'' = None"
    by (simp add: GAME_MAP_def GAME_MAP_items_def)
  have n: "NPCS ''nobody'' = None"
    by (simp add: NPCS_def NPCS_items_def)
  show ?thesis
    using unresolved_id_no_mutation [OF g n, of demo_env 5
        "\<lparr>players_json = Json [''5'' \<mapsto> default_player], next_step = no_steps\<rparr>"
        123456789 "''5''"] g n
    by simp
qed

text \<open>
  C7 at a failing input. Player 9 has sent a voice message and is pending approval; the
  admin presses the reject button issued for that player. The handler ends with
  \<open>AttributeError\<close> before it reaches the block that deletes the record: the record of
  player 9 is still stored, and a lookup gives the pending record, not the default one.
\<close>

theorem reject_press_keeps_record:
  "button_handler demo_env \<lparr>from_user = 123456789, callback_data = ''reject_9''\<rparr>
     \<lparr>players_json =
        Json [''9'' \<mapsto> default_player\<lparr>pending_approval := True, voice_file_id := Some ''f1''\<rparr>],
      next_step = no_steps\<rparr>
   = (Some AttributeError, [Answer],
      \<lparr>players_json =
         Json [''9'' \<mapsto> default_player\<lparr>pending_approval := True, voice_file_id := Some ''f1''\<rparr>],
       next_step = no_steps\<rparr>)
   \<and> get_player_state (Int_id 9)
       (players_json
          (snd (snd (button_handler demo_env
             \<lparr>from_user = 123456789, callback_data = ''reject_9''\<rparr>
             \<lparr>players_json =
                Json [''9'' \<mapsto> default_player\<lparr>pending_approval := True,
                                               voice_file_id := Some ''f1''\<rparr>],
              next_step = no_steps\<rparr>))))
     = default_player\<lparr>pending_approval := True, voice_file_id := Some ''f1''\<rparr>
   \<and> default_player\<lparr>pending_approval := True, voice_file_id := Some ''f1''\<rparr> \<noteq> default_player"
proof -
  have k: "str_int 9 = ''9''" by code_simp
  show ?thesis
    by (simp add: button_handler_raises get_player_state_def load_player_data_def k
        default_player_def)
qed

text \<open>
  C8 at a failing input. A VIP player at Downtown, the district of the VIP Lounge, presses
  the Look button. The handler ends with \<open>AttributeError\<close> after the answer: no Look text
  is sent, so the place flagged \<open>requires_vip\<close> is not shown to the VIP player either.
\<close>

theorem look_press_of_vip_shows_nothing:
  "location (default_player\<lparr>is_vip := True\<rparr>) = ''downtown''
   \<and> (\<exists>d. GAME_MAP ''downtown'' = Some d \<and> ''vip_lounge'' \<in> set (locations d))
   \<and> (\<exists>l. LOCATIONS ''vip_lounge'' = Some l \<and> requires_vip l = Some True)
   \<and> button_handler demo_env \<lparr>from_user = 5, callback_data = ''main_look''\<rparr>
       \<lparr>players_json = Json [''5'' \<mapsto> default_player\<lparr>is_vip := True\<rparr>], next_step = no_steps\<rparr>
     = (Some AttributeError, [Answer],
        \<lparr>players_json = Json [''5'' \<mapsto> default_player\<lparr>is_vip := True\<rparr>],
         next_step = no_steps\<rparr>)"
  by (simp add: button_handler_raises default_player_def GAME_MAP_def GAME_MAP_items_def
      LOCATIONS_def LOCATIONS_items_def)

text \<open>
  C10 at a failing input. The admin has no record; player 5, who is not the admin, is at
  Downtown, where the default record of the admin is located, and presses the Look button.
  The handler ends with \<open>AttributeError\<close> after the answer: no Look text is sent, and so no
  line of the god's presence.
\<close>

theorem look_press_shows_no_presence:
  "5 \<noteq> ADMIN_USER_ID demo_env
   \<and> load_player_data (Json [''5'' \<mapsto> default_player]) (str_int (ADMIN_USER_ID demo_env)) = None
   \<and> location (get_player_state (Int_id (ADMIN_USER_ID demo_env))
                 (Json [''5'' \<mapsto> default_player])) = ''downtown''
   \<and> location (get_player_state (Int_id 5) (Json [''5'' \<mapsto> default_player])) = ''downtown''
   \<and> button_handler demo_env \<lparr>from_user = 5, callback_data = ''main_look''\<rparr>
       \<lparr>players_json = Json [''5'' \<mapsto> default_player], next_step = no_steps\<rparr>
     = (Some AttributeError, [Answer],
        \<lparr>players_json = Json [''5'' \<mapsto> default_player], next_step = no_steps\<rparr>)"
proof -
  have a: "load_player_data (Json [''5'' \<mapsto> default_player]) (str_int (ADMIN_USER_ID demo_env))
             = None"
    by (rule admin_key_absent)
  have u: "5 \<noteq> ADMIN_USER_ID demo_env"
    by (simp add: demo_env_def)
  have l: "location default_player = ''downtown''"
    by (simp add: default_player_def)
  have g: "get_player_state (Int_id (ADMIN_USER_ID demo_env)) (Json [''5'' \<mapsto> default_player])
             = default_player"
    using a by (simp add: get_player_state_def)
  have s: "get_player_state (Int_id 5) (Json [''5'' \<mapsto> default_player]) = default_player"
    by (simp add: get_player_state_def load_player_data_def str_int_5)
  show ?thesis
    by (simp only: a u g s l button_handler_raises simp_thms)
qed

section \<open>No run creates a character\<close>

text \<open>
  The flag \<open>character_created\<close> is set in one place, the profession block of the button
  handler, and that block is never reached. So the handlers keep the property that no
  stored record has the flag: each of them leaves the collection as it is or stores, under
  one key, a record read from the collection (or the default record) with other fields
  changed.
\<close>

lemma has_character_next_step [simp]:
  "has_character (st\<lparr>next_step := f\<rparr>) k = has_character st k"
  by (simp add: has_character_def)























end
